theory Spec2Isabelle
  imports Complex_Main "HOL-Library.Sublist"
begin

section \<open>Values at the tool boundary\<close>

text \<open>
  The arguments of a tool call and every Go value of type \<open>any\<close> in
  \<open>pkg/github/projects.go\<close> are decoded JSON. Go's \<open>encoding/json\<close> decodes into
  \<open>nil\<close>, \<open>bool\<close>, \<open>float64\<close>, \<open>string\<close>, \<open>[]any\<close> and \<open>map[string]any\<close>; the datatype
  has one constructor for each. A \<open>float64\<close> that came out of a JSON document is a
  finite binary fraction, so a number is a rational here: the claims only ask whether a
  value is a number and what \<open>int(x)\<close> is.
\<close>

datatype json =
    JNull
  | JBool bool
  | JNumber rat
  | JString string
  | JArray "json list"
  | JObject "(string \<times> json) list"

text \<open>\<open>req.GetArguments()\<close>: a \<open>map[string]any\<close>.\<close>

type_synonym arguments = "string \<rightharpoonup> json"

text \<open>A Go \<open>error\<close> is modelled by its message.\<close>

type_synonym error = string

text \<open>
  The conversion \<open>int(x)\<close> of a \<open>float64\<close>: the fraction is discarded (truncation
  towards zero). Go leaves the result open when the value does not fit the integer
  type; the model keeps the mathematical integer.
\<close>

definition int_of_float64 :: "rat \<Rightarrow> int" where
  "int_of_float64 x = (if x < 0 then \<lceil>x\<rceil> else \<lfloor>x\<rfloor>)"

section \<open>Parameter helpers\<close>

text \<open>
  Modelled from the spec: \<open>OptionalParam[string]\<close> is defined outside
  \<open>projects.go\<close>. The spec makes every pagination value optional (absence is the empty
  value) and lets a mistyped input fail as a parameter error.
\<close>

definition OptionalParam_string :: "arguments \<Rightarrow> string \<Rightarrow> error + string" where
  "OptionalParam_string r p =
     (case r p of
        None \<Rightarrow> Inr []
      | Some (JString s) \<Rightarrow> Inr s
      | Some _ \<Rightarrow> Inl (''parameter '' @ p @ '' is not of type string''))"

text \<open>
  Modelled from the spec: \<open>OptionalIntParamWithDefault\<close> is defined outside
  \<open>projects.go\<close>. An absent parameter gives the default, a number gives its integer
  value, anything else is a parameter error.
\<close>

definition OptionalIntParamWithDefault :: "arguments \<Rightarrow> string \<Rightarrow> int \<Rightarrow> error + int" where
  "OptionalIntParamWithDefault r p d =
     (case r p of
        None \<Rightarrow> Inr d
      | Some (JNumber n) \<Rightarrow> Inr (int_of_float64 n)
      | Some _ \<Rightarrow> Inl (''parameter '' @ p @ '' is not of type float64''))"

text \<open>
  Modelled from the spec: \<open>RequiredParam[string]\<close> is defined outside
  \<open>projects.go\<close>. A missing or mistyped required input is a parameter error.
\<close>

definition RequiredParam_string :: "arguments \<Rightarrow> string \<Rightarrow> error + string" where
  "RequiredParam_string r p =
     (case r p of
        None \<Rightarrow> Inl (''missing required parameter: '' @ p)
      | Some (JString s) \<Rightarrow> Inr s
      | Some _ \<Rightarrow> Inl (''parameter '' @ p @ '' is not of type string''))"

text \<open>
  Modelled from the spec: \<open>RequiredInt\<close> is defined outside \<open>projects.go\<close>. A
  number gives its integer value; a missing or mistyped input is a parameter error.
\<close>

definition RequiredInt :: "arguments \<Rightarrow> string \<Rightarrow> error + int" where
  "RequiredInt r p =
     (case r p of
        None \<Rightarrow> Inl (''missing required parameter: '' @ p)
      | Some (JNumber n) \<Rightarrow> Inr (int_of_float64 n)
      | Some _ \<Rightarrow> Inl (''parameter '' @ p @ '' is not of type float64''))"

text \<open>
  Modelled from the spec: \<open>OptionalStringArrayParam\<close> is defined outside
  \<open>projects.go\<close>. An absent parameter is the empty list; an array of strings gives its
  elements; anything else is a parameter error.
\<close>

fun json_strings :: "json list \<Rightarrow> string list option" where
  "json_strings [] = Some []"
| "json_strings (JString s # js) = map_option (Cons s) (json_strings js)"
| "json_strings (_ # js) = None"

definition OptionalStringArrayParam :: "arguments \<Rightarrow> string \<Rightarrow> error + string list" where
  "OptionalStringArrayParam r p =
     (case r p of
        None \<Rightarrow> Inr []
      | Some (JArray js) \<Rightarrow>
          (case json_strings js of
             Some ss \<Rightarrow> Inr ss
           | None \<Rightarrow> Inl (''parameter '' @ p @ '' could not be coerced to []string''))
      | Some _ \<Rightarrow> Inl (''parameter '' @ p @ '' could not be coerced to []string''))"

section \<open>Constants and data of \<open>projects.go\<close>\<close>

definition ProjectUpdateFailedError :: string where
  "ProjectUpdateFailedError = ''failed to update a project item''"

definition ProjectAddFailedError :: string where
  "ProjectAddFailedError = ''failed to add a project item''"

definition ProjectDeleteFailedError :: string where
  "ProjectDeleteFailedError = ''failed to delete a project item''"

definition ProjectListFailedError :: string where
  "ProjectListFailedError = ''failed to list project items''"

definition MaxProjectsPerPage :: int where
  "MaxProjectsPerPage = 50"

text \<open>
  The structs. A pointer field (\<open>*int64\<close>, \<open>*string\<close>, \<open>*any\<close>) is an option; a
  \<open>*github.Timestamp\<close> is its text; the structs \<open>github.User\<close> and
  \<open>projectV2ItemContent\<close>, which no function of the file looks into, are the JSON they
  were decoded from.
\<close>

record newProjectItem =
  ID :: int
  Type :: string

record updateProjectItem =
  ID :: int
  Value :: json

record updateProjectItemPayload =
  Fields :: "updateProjectItem list"

record projectV2Field =
  ID :: "int option"
  NodeID :: string
  Name :: string
  DataType :: string
  URL :: string
  Options :: "json option list"
  Configuration :: "json option"
  CreatedAt :: "string option"
  UpdatedAt :: "string option"

record projectV2ItemFieldValue =
  ID :: "int option"
  Name :: string
  DataType :: string
  Value :: json

record projectV2Item =
  ArchivedAt :: "string option"
  Content :: "json option"
  ContentType :: "string option"
  CreatedAt :: "string option"
  Creator :: "json option"
  Description :: "string option"
  Fields :: "projectV2ItemFieldValue option list"
  ID :: "int option"
  ItemURL :: "string option"
  NodeID :: "string option"
  ProjectURL :: "string option"
  Title :: "string option"
  UpdatedAt :: "string option"

record pageInfo =
  HasNextPage :: bool
  HasPreviousPage :: bool
  NextCursor :: string
  PrevCursor :: string

record paginationOptions =
  PerPage :: int
  After :: string
  Before :: string

record filterQueryOptions =
  Query :: string

record fieldSelectionOptions =
  Fields :: string

text \<open>The three embedded structs of \<open>listProjectItemsOptions\<close> are its three fields.\<close>

record listProjectItemsOptions =
  paginationOptions :: paginationOptions
  filterQueryOptions :: filterQueryOptions
  fieldSelectionOptions :: fieldSelectionOptions

text \<open>
  The part of \<open>github.Response\<close> the file reads: the status code, the cursors, and
  the body, given as what \<open>io.ReadAll(resp.Body)\<close> returns.
\<close>

record Response =
  StatusCode :: int
  Body :: "error + string"
  After :: string
  Before :: string

section \<open>Strings\<close>

text \<open>
  \<open>strings.ToLower\<close> on bytes: the letters \<open>A\<close> to \<open>Z\<close> are mapped to \<open>a\<close> to \<open>z\<close>. Go
  lower-cases by Unicode code point; on ASCII text, which the data types of the remote
  API are, the two agree, and a byte outside ASCII is left as it is here.
\<close>

definition lower_byte :: "char \<Rightarrow> char" where
  "lower_byte c =
     (case map_of (zip ''ABCDEFGHIJKLMNOPQRSTUVWXYZ'' ''abcdefghijklmnopqrstuvwxyz'') c of
        Some l \<Rightarrow> l
      | None \<Rightarrow> c)"

definition ToLower :: "string \<Rightarrow> string" where
  "ToLower s = map lower_byte s"

text \<open>\<open>strings.Join\<close>.\<close>

fun Join :: "string list \<Rightarrow> string \<Rightarrow> string" where
  "Join [] sep = []"
| "Join [x] sep = x"
| "Join (x # y # zs) sep = x @ sep @ Join (y # zs) sep"

text \<open>The decimal text of an integer, as \<open>%d\<close> and \<open>fmt.Sprint\<close> print it.\<close>

fun nat_digits :: "nat \<Rightarrow> string" where
  "nat_digits n =
     (if n < 10 then [''0123456789'' ! n]
      else nat_digits (n div 10) @ [''0123456789'' ! (n mod 10)])"

declare nat_digits.simps [simp del]

definition Itoa :: "int \<Rightarrow> string" where
  "Itoa i = (if i < 0 then CHR ''-'' # nat_digits (nat (- i)) else nat_digits (nat i))"

section \<open>The pure functions of \<open>projects.go\<close>\<close>

text \<open>\<open>getDataType\<close>, on a possibly nil pointer, for both record shapes.\<close>

definition projectV2Field_getDataType :: "projectV2Field option \<Rightarrow> string" where
  "projectV2Field_getDataType f =
     (case f of None \<Rightarrow> [] | Some x \<Rightarrow> ToLower (projectV2Field.DataType x))"

definition projectV2ItemFieldValue_getDataType :: "projectV2ItemFieldValue option \<Rightarrow> string" where
  "projectV2ItemFieldValue_getDataType v =
     (case v of None \<Rightarrow> [] | Some x \<Rightarrow> ToLower (projectV2ItemFieldValue.DataType x))"

definition toNewProjectType :: "string \<Rightarrow> string" where
  "toNewProjectType projType =
     (if ToLower projType = ''issue'' then ''Issue''
      else if ToLower projType = ''pull_request'' then ''PullRequest''
      else [])"

text \<open>A \<open>map[string]any\<close> argument is \<open>None\<close> when the map is nil.\<close>

definition buildUpdateProjectItem :: "(string \<rightharpoonup> json) option \<Rightarrow> error + updateProjectItem" where
  "buildUpdateProjectItem input =
     (case input of
        None \<Rightarrow> Inl ''updated_field must be an object''
      | Some m \<Rightarrow>
          (case m ''id'' of
             None \<Rightarrow> Inl ''updated_field.id is required''
           | Some idField \<Rightarrow>
               (case idField of
                  JNumber idFieldAsFloat64 \<Rightarrow>
                    (case m ''value'' of
                       None \<Rightarrow> Inl ''updated_field.value is required''
                     | Some valueField \<Rightarrow>
                         Inr \<lparr>updateProjectItem.ID = int_of_float64 idFieldAsFloat64,
                              updateProjectItem.Value = valueField\<rparr>)
                | _ \<Rightarrow> Inl ''updated_field.id must be a number'')))"

definition buildPageInfo :: "Response \<Rightarrow> pageInfo" where
  "buildPageInfo resp =
     \<lparr>HasNextPage = (Response.After resp \<noteq> []),
      HasPreviousPage = (Response.Before resp \<noteq> []),
      NextCursor = Response.After resp,
      PrevCursor = Response.Before resp\<rparr>"

definition extractPaginationOptions :: "arguments \<Rightarrow> error + paginationOptions" where
  "extractPaginationOptions request =
     (case OptionalIntParamWithDefault request ''per_page'' MaxProjectsPerPage of
        Inl err \<Rightarrow> Inl err
      | Inr perPage0 \<Rightarrow>
          let perPage = (if perPage0 > MaxProjectsPerPage then MaxProjectsPerPage else perPage0)
          in (case OptionalParam_string request ''after'' of
                Inl err \<Rightarrow> Inl err
              | Inr after \<Rightarrow>
                  (case OptionalParam_string request ''before'' of
                     Inl err \<Rightarrow> Inl err
                   | Inr before \<Rightarrow>
                       Inr \<lparr>PerPage = perPage, paginationOptions.After = after,
                            paginationOptions.Before = before\<rparr>)))"

definition specialFieldDataTypes :: "string set" where
  "specialFieldDataTypes =
     {''assignees'', ''labels'', ''linked_pull_requests'', ''milestone'', ''parent_issue'',
      ''repository'', ''reviewers'', ''sub_issues_progress'', ''title''}"

text \<open>
  \<open>filterSpecialTypes\<close> is generic in \<open>T interface{ getDataType() string }\<close>: the
  accessor is a parameter. The loop appends every element that is not special to
  \<open>out\<close>.
\<close>

fun filterSpecialTypes_loop :: "('a \<Rightarrow> string) \<Rightarrow> 'a list \<Rightarrow> 'a list \<Rightarrow> 'a list" where
  "filterSpecialTypes_loop getDataType out [] = out"
| "filterSpecialTypes_loop getDataType out (f # fs) =
     (let dt = getDataType f
      in if dt \<in> specialFieldDataTypes then filterSpecialTypes_loop getDataType out fs
         else filterSpecialTypes_loop getDataType (out @ [f]) fs)"

definition filterSpecialTypes :: "('a \<Rightarrow> string) \<Rightarrow> 'a list \<Rightarrow> 'a list" where
  "filterSpecialTypes getDataType fs =
     (if length fs = 0 then fs
      else filterSpecialTypes_loop getDataType [] fs)"




section \<open>The JSON form of the structs\<close>

text \<open>
  What \<open>encoding/json\<close> writes for a struct is fixed by its field tags: a field
  tagged \<open>omitempty\<close> is left out when it is empty (\<open>0\<close>, \<open>""\<close>), every other field is
  always written. An object is the list of its members, in the order of the fields.
\<close>

definition pageInfo_json :: "pageInfo \<Rightarrow> json" where
  "pageInfo_json p =
     JObject
       ([(''hasNextPage'', JBool (HasNextPage p)),
         (''hasPreviousPage'', JBool (HasPreviousPage p))]
        @ (if NextCursor p = [] then [] else [(''nextCursor'', JString (NextCursor p))])
        @ (if PrevCursor p = [] then [] else [(''prevCursor'', JString (PrevCursor p))]))"

definition newProjectItem_json :: "newProjectItem \<Rightarrow> json" where
  "newProjectItem_json n =
     JObject
       ((if newProjectItem.ID n = 0 then [] else [(''id'', JNumber (of_int (newProjectItem.ID n)))])
        @ (if Type n = [] then [] else [(''type'', JString (Type n))]))"

definition updateProjectItem_json :: "updateProjectItem \<Rightarrow> json" where
  "updateProjectItem_json u =
     JObject
       [(''id'', JNumber (of_int (updateProjectItem.ID u))),
        (''value'', updateProjectItem.Value u)]"

definition updateProjectItemPayload_json :: "updateProjectItemPayload \<Rightarrow> json" where
  "updateProjectItemPayload_json p =
     JObject [(''fields'', JArray (map updateProjectItem_json (updateProjectItemPayload.Fields p)))]"

text \<open>The members of a JSON object, by key; nothing for a value that is no object.\<close>

definition json_keys :: "json \<Rightarrow> string list" where
  "json_keys j = (case j of JObject kvs \<Rightarrow> map fst kvs | _ \<Rightarrow> [])"

definition json_member :: "json \<Rightarrow> string \<Rightarrow> json option" where
  "json_member j k = (case j of JObject kvs \<Rightarrow> map_of kvs k | _ \<Rightarrow> None)"

section \<open>Query strings and request targets (\<open>net/url\<close>)\<close>

text \<open>
  \<open>addOptions\<close> goes through Go's \<open>net/url\<close>. The functions below follow that
  package for a reference that has no scheme and no authority, which is every target
  \<open>projects.go\<close> builds (they all start with \<open>orgs/\<close> or \<open>users/\<close>).
\<close>

datatype encoding = encodePath | encodeQueryComponent | encodeFragment

definition is_alnum :: "char \<Rightarrow> bool" where
  "is_alnum c =
     (c \<in> set ''abcdefghijklmnopqrstuvwxyzABCDEFGHIJKLMNOPQRSTUVWXYZ0123456789'')"

definition shouldEscape :: "char \<Rightarrow> encoding \<Rightarrow> bool" where
  "shouldEscape c mode =
     (if is_alnum c then False
      else if c \<in> set ''-_.~'' then False
      else if c \<in> set ''$&+,/:;=?@'' then
        (case mode of
           encodePath \<Rightarrow> c = CHR ''?''
         | encodeQueryComponent \<Rightarrow> True
         | encodeFragment \<Rightarrow> False)
      else if mode = encodeFragment \<and> c \<in> set ''!()*'' then False
      else True)"

definition upperhex :: string where
  "upperhex = ''0123456789ABCDEF''"

definition escape_byte :: "char \<Rightarrow> encoding \<Rightarrow> string" where
  "escape_byte c mode =
     (if shouldEscape c mode then
        (if c = CHR '' '' \<and> mode = encodeQueryComponent then ''+''
         else [CHR ''%'', upperhex ! (of_char c div 16), upperhex ! (of_char c mod 16)])
      else [c])"

definition escape :: "string \<Rightarrow> encoding \<Rightarrow> string" where
  "escape s mode = concat (map (\<lambda>c. escape_byte c mode) s)"

definition QueryEscape :: "string \<Rightarrow> string" where
  "QueryEscape s = escape s encodeQueryComponent"

definition unhex :: "char \<Rightarrow> nat option" where
  "unhex c =
     map_of (zip ''0123456789abcdefABCDEF''
       [0, 1, 2, 3, 4, 5, 6, 7, 8, 9, 10, 11, 12, 13, 14, 15, 10, 11, 12, 13, 14, 15]) c"

text \<open>
  \<open>unescape\<close> in the path and fragment modes: a \<open>%\<close> must be followed by two hex
  digits, and the three bytes stand for one.
\<close>

definition EscapeError :: "string \<Rightarrow> error" where
  "EscapeError e = ''invalid URL escape '' @ [CHR 0x22] @ e @ [CHR 0x22]"

fun unescape :: "string \<Rightarrow> error + string" where
  "unescape [] = Inr []"
| "unescape [c] = (if c = CHR ''%'' then Inl (EscapeError [c]) else Inr [c])"
| "unescape [c, h] =
     (if c = CHR ''%'' then Inl (EscapeError [c, h])
      else map_sum id (Cons c) (unescape [h]))"
| "unescape (c # h # l # s) =
     (if c = CHR ''%'' then
        (case (unhex h, unhex l) of
           (Some a, Some b) \<Rightarrow> map_sum id (Cons (char_of (16 * a + b))) (unescape s)
         | _ \<Rightarrow> Inl (EscapeError [c, h, l]))
      else map_sum id (Cons c) (unescape (h # l # s)))"

definition validEncoded :: "string \<Rightarrow> encoding \<Rightarrow> bool" where
  "validEncoded s mode =
     list_all (\<lambda>c. c \<in> set ''!$&'' \<or> c = CHR 0x27 \<or> c \<in> set ''()*+,;=:@[]%''
                  \<or> \<not> shouldEscape c mode) s"

text \<open>
  The fields of \<open>url.URL\<close> that a reference without scheme and authority can fill.
\<close>

record URL =
  Path :: string
  RawPath :: string
  ForceQuery :: bool
  RawQuery :: string
  Fragment :: string
  RawFragment :: string

definition Cut :: "string \<Rightarrow> char \<Rightarrow> string \<times> string" where
  "Cut s sep = (takeWhile (\<lambda>c. c \<noteq> sep) s, drop 1 (dropWhile (\<lambda>c. c \<noteq> sep) s))"

definition HasPrefix :: "string \<Rightarrow> string \<Rightarrow> bool" where
  "HasPrefix s p = (take (length p) s = p)"

definition stringContainsCTLByte :: "string \<Rightarrow> bool" where
  "stringContainsCTLByte s = list_ex (\<lambda>c. (of_char c :: nat) < 32 \<or> (of_char c :: nat) = 127) s"

text \<open>
  \<open>getScheme\<close>: the text before the first \<open>:\<close> when it is a scheme, together with
  the rest. \<open>seen\<close> is what the loop went over, so \<open>i == 0\<close> is \<open>seen = []\<close>.
\<close>

fun getScheme_loop :: "string \<Rightarrow> string \<Rightarrow> string \<Rightarrow> error + (string \<times> string)" where
  "getScheme_loop rawURL seen [] = Inr ([], rawURL)"
| "getScheme_loop rawURL seen (c # cs) =
     (if c \<in> set ''abcdefghijklmnopqrstuvwxyzABCDEFGHIJKLMNOPQRSTUVWXYZ'' then
        getScheme_loop rawURL (seen @ [c]) cs
      else if c \<in> set ''0123456789+-.'' then
        (if seen = [] then Inr ([], rawURL) else getScheme_loop rawURL (seen @ [c]) cs)
      else if c = CHR '':'' then
        (if seen = [] then Inl ''missing protocol scheme'' else Inr (seen, cs))
      else Inr ([], rawURL))"

definition getScheme :: "string \<Rightarrow> error + (string \<times> string)" where
  "getScheme rawURL = getScheme_loop rawURL [] rawURL"

text \<open>
  \<open>parse\<close> (with \<open>viaRequest = false\<close>). The result is \<open>None\<close> where the reference
  has a scheme or an authority: that part of \<open>net/url\<close> is not modelled.
\<close>

definition parse :: "string \<Rightarrow> (error + URL) option" where
  "parse rawURL =
     (if stringContainsCTLByte rawURL then
        Some (Inl ''net/url: invalid control character in URL'')
      else if rawURL = ''*'' then
        Some (Inr \<lparr>Path = ''*'', RawPath = [], ForceQuery = False, RawQuery = [],
                  Fragment = [], RawFragment = []\<rparr>)
      else
        (case getScheme rawURL of
           Inl err \<Rightarrow> Some (Inl err)
         | Inr (scheme, rest0) \<Rightarrow>
             if scheme \<noteq> [] then None
             else
               let force = (rest0 \<noteq> [] \<and> last rest0 = CHR ''?''
                              \<and> count_list rest0 (CHR ''?'') = 1);
                   rest = (if force then butlast rest0 else fst (Cut rest0 (CHR ''?'')));
                   query = (if force then [] else snd (Cut rest0 (CHR ''?'')))
               in if \<not> HasPrefix rest ''/'' \<and> CHR '':'' \<in> set (fst (Cut rest (CHR ''/''))) then
                    Some (Inl ''first path segment in URL cannot contain colon'')
                  else if \<not> HasPrefix rest ''///'' \<and> HasPrefix rest ''//'' then None
                  else
                    (case unescape rest of
                       Inl err \<Rightarrow> Some (Inl err)
                     | Inr path \<Rightarrow>
                         Some (Inr \<lparr>Path = path,
                                   RawPath = (if rest = escape path encodePath then [] else rest),
                                   ForceQuery = force, RawQuery = query,
                                   Fragment = [], RawFragment = []\<rparr>))))"

text \<open>
  \<open>url.Parse\<close>: the fragment is cut off first. An error is wrapped with the
  operation and the text that was parsed.
\<close>

definition url_Error :: "string \<Rightarrow> error \<Rightarrow> error" where
  "url_Error u err = ''parse '' @ [CHR 0x22] @ u @ [CHR 0x22] @ '': '' @ err"

definition url_Parse :: "string \<Rightarrow> (error + URL) option" where
  "url_Parse rawURL =
     (let u = fst (Cut rawURL (CHR ''#'')); frag = snd (Cut rawURL (CHR ''#''))
      in case parse u of
           None \<Rightarrow> None
         | Some (Inl err) \<Rightarrow> Some (Inl (url_Error u err))
         | Some (Inr url) \<Rightarrow>
             if frag = [] then Some (Inr url)
             else
               (case unescape frag of
                  Inl err \<Rightarrow> Some (Inl (url_Error rawURL err))
                | Inr f \<Rightarrow>
                    Some (Inr (url\<lparr>Fragment := f,
                                   RawFragment :=
                                     (if frag = escape f encodeFragment then [] else frag)\<rparr>))))"

definition EscapedPath :: "URL \<Rightarrow> string" where
  "EscapedPath u =
     (if RawPath u \<noteq> [] \<and> validEncoded (RawPath u) encodePath
         \<and> unescape (RawPath u) = Inr (Path u) then RawPath u
      else if Path u = ''*'' then ''*''
      else escape (Path u) encodePath)"

definition EscapedFragment :: "URL \<Rightarrow> string" where
  "EscapedFragment u =
     (if RawFragment u \<noteq> [] \<and> validEncoded (RawFragment u) encodeFragment
         \<and> unescape (RawFragment u) = Inr (Fragment u) then RawFragment u
      else escape (Fragment u) encodeFragment)"

text \<open>
  \<open>URL.String\<close> with no scheme, user and host: the escaped path, after \<open>./\<close> when
  its first segment has a colon, then the query and the fragment when there is one.
\<close>

definition url_String :: "URL \<Rightarrow> string" where
  "url_String u =
     (let path = EscapedPath u
      in (if CHR '':'' \<in> set (fst (Cut path (CHR ''/''))) then ''./'' else []) @ path
         @ (if ForceQuery u \<or> RawQuery u \<noteq> [] then CHR ''?'' # RawQuery u else [])
         @ (if Fragment u \<noteq> [] then CHR ''#'' # EscapedFragment u else []))"

text \<open>
  \<open>url.Values\<close> is a \<open>map[string][]string\<close>: a list of keys with their values, each
  key once. \<open>Encode\<close> writes \<open>key=value\<close> for every value, the keys sorted as byte
  strings, everything escaped as a query component and joined by \<open>&\<close>.
\<close>

type_synonym Values = "(string \<times> string list) list"

fun Values_Add :: "string \<Rightarrow> string \<Rightarrow> Values \<Rightarrow> Values" where
  "Values_Add k v [] = [(k, [v])]"
| "Values_Add k v ((k', vs) # rest) =
     (if k = k' then (k', vs @ [v]) # rest else (k', vs) # Values_Add k v rest)"

fun bytes_le :: "string \<Rightarrow> string \<Rightarrow> bool" where
  "bytes_le [] ys = True"
| "bytes_le (x # xs) [] = False"
| "bytes_le (x # xs) (y # ys) =
     ((of_char x :: nat) < of_char y \<or> (x = y \<and> bytes_le xs ys))"

fun insert_key :: "string \<times> string list \<Rightarrow> Values \<Rightarrow> Values" where
  "insert_key e [] = [e]"
| "insert_key e (e' # es) =
     (if bytes_le (fst e) (fst e') then e # e' # es else e' # insert_key e es)"

definition sort_keys :: "Values \<Rightarrow> Values" where
  "sort_keys v = foldr insert_key v []"

definition Values_Encode :: "Values \<Rightarrow> string" where
  "Values_Encode v =
     Join (concat (map (\<lambda>(k, vs). map (\<lambda>x. QueryEscape k @ ''='' @ QueryEscape x) vs)
                       (sort_keys v))) ''&''"

text \<open>
  The keys of a query string as its reader sees them: the parts between \<open>&\<close>, each up
  to its first \<open>=\<close>. It is used to state which keys an encoded query has.
\<close>

fun split_on :: "char \<Rightarrow> string \<Rightarrow> string list" where
  "split_on sep [] = [[]]"
| "split_on sep (c # cs) =
     (if c = sep then [] # split_on sep cs
      else (case split_on sep cs of
              w # ws \<Rightarrow> (c # w) # ws
            | [] \<Rightarrow> [[c]]))"

definition query_keys :: "string \<Rightarrow> string list" where
  "query_keys q =
     (if q = [] then [] else map (takeWhile (\<lambda>c. c \<noteq> CHR ''='')) (split_on (CHR ''&'') q))"

section \<open>Struct to query values (\<open>go-querystring\<close>)\<close>

text \<open>
  \<open>query.Values\<close> reads the \<open>url\<close> tags of a struct: a field tagged
  \<open>name,omitempty\<close> is added under \<open>name\<close> unless it is empty (\<open>0\<close> for an int, \<open>""\<close> for
  a string); an embedded struct contributes its own fields.
\<close>

definition paginationOptions_values :: "paginationOptions \<Rightarrow> Values \<Rightarrow> Values" where
  "paginationOptions_values p v0 =
     (let v1 = (if PerPage p = 0 then v0 else Values_Add ''per_page'' (Itoa (PerPage p)) v0);
          v2 = (if paginationOptions.After p = [] then v1
                else Values_Add ''after'' (paginationOptions.After p) v1);
          v3 = (if paginationOptions.Before p = [] then v2
                else Values_Add ''before'' (paginationOptions.Before p) v2)
      in v3)"

definition filterQueryOptions_values :: "filterQueryOptions \<Rightarrow> Values \<Rightarrow> Values" where
  "filterQueryOptions_values q v0 = (if Query q = [] then v0 else Values_Add ''q'' (Query q) v0)"

definition fieldSelectionOptions_values :: "fieldSelectionOptions \<Rightarrow> Values \<Rightarrow> Values" where
  "fieldSelectionOptions_values f v0 =
     (if fieldSelectionOptions.Fields f = [] then v0
      else Values_Add ''fields'' (fieldSelectionOptions.Fields f) v0)"

definition listProjectItemsOptions_values :: "listProjectItemsOptions \<Rightarrow> Values \<Rightarrow> Values" where
  "listProjectItemsOptions_values opts v0 =
     fieldSelectionOptions_values (fieldSelectionOptions opts)
       (filterQueryOptions_values (filterQueryOptions opts)
          (paginationOptions_values (paginationOptions opts) v0))"

text \<open>
  The values \<open>addOptions\<close> is called with in \<open>projects.go\<close>, and the nil pointer its
  first test is about.
\<close>

datatype options =
    NilPointer
  | PaginationOptions paginationOptions
  | FieldSelectionOptions fieldSelectionOptions
  | ListProjectItemsOptions listProjectItemsOptions

definition query_Values :: "options \<Rightarrow> error + Values" where
  "query_Values opts =
     (case opts of
        NilPointer \<Rightarrow> Inr []
      | PaginationOptions p \<Rightarrow> Inr (paginationOptions_values p [])
      | FieldSelectionOptions f \<Rightarrow> Inr (fieldSelectionOptions_values f [])
      | ListProjectItemsOptions l \<Rightarrow> Inr (listProjectItemsOptions_values l []))"

text \<open>
  \<open>addOptions\<close>. Go returns the pair \<open>(s, err)\<close> on an error; the model returns the
  error.
\<close>

definition addOptions :: "string \<Rightarrow> options \<Rightarrow> (error + string) option" where
  "addOptions s opts =
     (if opts = NilPointer then Some (Inr s)
      else
        (case url_Parse s of
           None \<Rightarrow> None
         | Some (Inl err) \<Rightarrow> Some (Inl err)
         | Some (Inr u) \<Rightarrow>
             (case query_Values opts of
                Inl err \<Rightarrow> Some (Inl err)
              | Inr qs \<Rightarrow> Some (Inr (url_String (u\<lparr>RawQuery := Values_Encode qs\<rparr>))))))"

section \<open>The transport and the tool results\<close>

text \<open>
  A handler returns \<open>(*mcp.CallToolResult, error)\<close>: \<open>Inl\<close> is the Go error, \<open>Inr\<close> the
  tool result, which is a text (\<open>mcp.NewToolResultText\<close>) or an error shown to the
  caller (\<open>mcp.NewToolResultError\<close>).
\<close>

datatype tool_result = ToolResultText string | ToolResultError string

text \<open>The body given to \<open>client.NewRequest\<close>.\<close>

datatype request_body =
    NoBody
  | NewProjectItemBody newProjectItem
  | UpdateProjectItemBody updateProjectItemPayload

definition request_body_json :: "request_body \<Rightarrow> json option" where
  "request_body_json b =
     (case b of
        NoBody \<Rightarrow> None
      | NewProjectItemBody n \<Rightarrow> Some (newProjectItem_json n)
      | UpdateProjectItemBody u \<Rightarrow> Some (updateProjectItemPayload_json u))"

text \<open>
  A request made by \<open>client.NewRequest(method, urlStr, body)\<close> carries these three.
\<close>

record http_request =
  httpMethod :: string
  urlStr :: string
  body :: request_body

text \<open>
  \<open>client.Do(ctx, req, v)\<close> returns a response and an error, and decodes the body
  into \<open>v\<close>: either an error, with or without a response, or a response with the
  decoded value.
\<close>

datatype 'a do_result = DoError "Response option" error | DoOK Response 'a

text \<open>The values given to \<open>json.Marshal\<close> for the text of a result.\<close>

datatype marshalled =
    ItemsResponse "projectV2Item list" pageInfo
  | ItemValue projectV2Item

text \<open>
  What a handler needs from outside the file: whether \<open>getClient\<close> and
  \<open>client.NewRequest\<close> fail, what \<open>client.Do\<close> returns for a request, and what
  \<open>json.Marshal\<close> returns.
\<close>

record 'a deps =
  getClient_err :: "error option"
  NewRequest_err :: "string \<Rightarrow> string \<Rightarrow> request_body \<Rightarrow> error option"
  Do :: "http_request \<Rightarrow> 'a do_result"
  Marshal :: "marshalled \<Rightarrow> error + string"

text \<open>
  Modelled from the spec: \<open>ghErrors.NewGitHubAPIErrorResponse\<close> is defined outside
  \<open>projects.go\<close>. A transport error is surfaced as an error result that carries the
  message and the upstream error, not as a fatal failure.
\<close>

definition NewGitHubAPIErrorResponse :: "string \<Rightarrow> Response option \<Rightarrow> error \<Rightarrow> tool_result" where
  "NewGitHubAPIErrorResponse message resp err = ToolResultError (message @ '': '' @ err)"

text \<open>
  The outcome of a handler: what it returns, and the requests it issued through
  \<open>client.Do\<close>, in order.
\<close>

type_synonym outcome = "(error + tool_result) \<times> http_request list"

definition StatusOK :: int where
  "StatusOK = 200"

definition StatusCreated :: int where
  "StatusCreated = 201"

definition StatusNoContent :: int where
  "StatusNoContent = 204"

section \<open>The item handlers\<close>

definition items_url :: "string \<Rightarrow> string \<Rightarrow> int \<Rightarrow> string" where
  "items_url ownerType owner projectNumber =
     (if ownerType = ''org'' then ''orgs/'' @ owner @ ''/projectsV2/'' @ Itoa projectNumber @ ''/items''
      else ''users/'' @ owner @ ''/projectsV2/'' @ Itoa projectNumber @ ''/items'')"

definition item_url :: "string \<Rightarrow> string \<Rightarrow> int \<Rightarrow> int \<Rightarrow> string" where
  "item_url ownerType owner projectNumber itemID =
     (if ownerType = ''org'' then
        ''orgs/'' @ owner @ ''/projectsV2/'' @ Itoa projectNumber @ ''/items/'' @ Itoa itemID
      else
        ''users/'' @ owner @ ''/projectsV2/'' @ Itoa projectNumber @ ''/items/'' @ Itoa itemID)"

text \<open>
  \<open>ListProjectItems\<close>. The result is \<open>None\<close> only where \<open>addOptions\<close> is: lemma
  \<open>ListProjectItems_modelled\<close> shows that this never happens.
\<close>

definition ListProjectItems :: "projectV2Item list deps \<Rightarrow> arguments \<Rightarrow> outcome option" where
  "ListProjectItems d req =
     (case RequiredParam_string req ''owner'' of
        Inl err \<Rightarrow> Some (Inr (ToolResultError err), [])
      | Inr owner \<Rightarrow>
     (case RequiredParam_string req ''owner_type'' of
        Inl err \<Rightarrow> Some (Inr (ToolResultError err), [])
      | Inr ownerType \<Rightarrow>
     (case RequiredInt req ''project_number'' of
        Inl err \<Rightarrow> Some (Inr (ToolResultError err), [])
      | Inr projectNumber \<Rightarrow>
     (case OptionalParam_string req ''query'' of
        Inl err \<Rightarrow> Some (Inr (ToolResultError err), [])
      | Inr queryStr \<Rightarrow>
     (case OptionalStringArrayParam req ''fields'' of
        Inl err \<Rightarrow> Some (Inr (ToolResultError err), [])
      | Inr fieldIDs \<Rightarrow>
     (case extractPaginationOptions req of
        Inl err \<Rightarrow> Some (Inr (ToolResultError err), [])
      | Inr pagination \<Rightarrow>
     (case getClient_err d of
        Some err \<Rightarrow> Some (Inr (ToolResultError err), [])
      | None \<Rightarrow>
     (let url = items_url ownerType owner projectNumber;
          opts = \<lparr>paginationOptions = pagination,
                  filterQueryOptions = \<lparr>Query = queryStr\<rparr>,
                  fieldSelectionOptions =
                    \<lparr>fieldSelectionOptions.Fields = Join fieldIDs '',''\<rparr>\<rparr>
      in case addOptions url (ListProjectItemsOptions opts) of
           None \<Rightarrow> None
         | Some (Inl err) \<Rightarrow> Some (Inl (''failed to add options to request: '' @ err), [])
         | Some (Inr url') \<Rightarrow>
     (case NewRequest_err d ''GET'' url' NoBody of
        Some err \<Rightarrow> Some (Inl (''failed to create request: '' @ err), [])
      | None \<Rightarrow>
     (let httpRequest = \<lparr>httpMethod = ''GET'', urlStr = url', body = NoBody\<rparr>
      in case Do d httpRequest of
           DoError resp err \<Rightarrow>
             Some (Inr (NewGitHubAPIErrorResponse ProjectListFailedError resp err), [httpRequest])
         | DoOK resp projectItems \<Rightarrow>
             (let projectItems' =
                    map (\<lambda>i. if length (projectV2Item.Fields i) > 0
                              then i\<lparr>projectV2Item.Fields :=
                                     filterSpecialTypes projectV2ItemFieldValue_getDataType
                                       (projectV2Item.Fields i)\<rparr>
                              else i) projectItems
              in case Marshal d (ItemsResponse projectItems' (buildPageInfo resp)) of
                   Inl err \<Rightarrow> Some (Inl (''failed to marshal response: '' @ err), [httpRequest])
                 | Inr r \<Rightarrow> Some (Inr (ToolResultText r), [httpRequest]))))))))))))"

text \<open>The message \<open>item_type must be either 'issue' or 'pull_request'\<close>.\<close>

definition item_type_error :: string where
  "item_type_error = ''item_type must be either 'issue' or 'pull_request'' @ [CHR 0x27]"

definition AddProjectItem :: "projectV2Item deps \<Rightarrow> arguments \<Rightarrow> outcome" where
  "AddProjectItem d req =
     (case RequiredParam_string req ''owner'' of
        Inl err \<Rightarrow> (Inr (ToolResultError err), [])
      | Inr owner \<Rightarrow>
     (case RequiredParam_string req ''owner_type'' of
        Inl err \<Rightarrow> (Inr (ToolResultError err), [])
      | Inr ownerType \<Rightarrow>
     (case RequiredInt req ''project_number'' of
        Inl err \<Rightarrow> (Inr (ToolResultError err), [])
      | Inr projectNumber \<Rightarrow>
     (case RequiredInt req ''item_id'' of
        Inl err \<Rightarrow> (Inr (ToolResultError err), [])
      | Inr itemID \<Rightarrow>
     (case RequiredParam_string req ''item_type'' of
        Inl err \<Rightarrow> (Inr (ToolResultError err), [])
      | Inr itemType \<Rightarrow>
     (if itemType \<noteq> ''issue'' \<and> itemType \<noteq> ''pull_request'' then
        (Inr (ToolResultError item_type_error), [])
      else
     (case getClient_err d of
        Some err \<Rightarrow> (Inr (ToolResultError err), [])
      | None \<Rightarrow>
     (let projectsURL = items_url ownerType owner projectNumber;
          newItem = \<lparr>newProjectItem.ID = itemID, Type = toNewProjectType itemType\<rparr>
      in case NewRequest_err d ''POST'' projectsURL (NewProjectItemBody newItem) of
           Some err \<Rightarrow> (Inl (''failed to create request: '' @ err), [])
         | None \<Rightarrow>
     (let httpRequest = \<lparr>httpMethod = ''POST'', urlStr = projectsURL,
                          body = NewProjectItemBody newItem\<rparr>
      in case Do d httpRequest of
           DoError resp err \<Rightarrow>
             (Inr (NewGitHubAPIErrorResponse ProjectAddFailedError resp err), [httpRequest])
         | DoOK resp addedItem \<Rightarrow>
             if StatusCode resp \<noteq> StatusCreated then
               (case Body resp of
                  Inl err \<Rightarrow> (Inl (''failed to read response body: '' @ err), [httpRequest])
                | Inr b \<Rightarrow>
                    (Inr (ToolResultError (ProjectAddFailedError @ '': '' @ b)), [httpRequest]))
             else
               (case Marshal d (ItemValue addedItem) of
                  Inl err \<Rightarrow> (Inl (''failed to marshal response: '' @ err), [httpRequest])
                | Inr r \<Rightarrow> (Inr (ToolResultText r), [httpRequest])))))))))))"

text \<open>
  \<open>UpdateProjectItem\<close>. The type assertion \<open>rawUpdatedField.(map[string]any)\<close>
  holds for a JSON object, whose map is never nil.
\<close>

definition UpdateProjectItem :: "projectV2Item deps \<Rightarrow> arguments \<Rightarrow> outcome" where
  "UpdateProjectItem d req =
     (case RequiredParam_string req ''owner'' of
        Inl err \<Rightarrow> (Inr (ToolResultError err), [])
      | Inr owner \<Rightarrow>
     (case RequiredParam_string req ''owner_type'' of
        Inl err \<Rightarrow> (Inr (ToolResultError err), [])
      | Inr ownerType \<Rightarrow>
     (case RequiredInt req ''project_number'' of
        Inl err \<Rightarrow> (Inr (ToolResultError err), [])
      | Inr projectNumber \<Rightarrow>
     (case RequiredInt req ''item_id'' of
        Inl err \<Rightarrow> (Inr (ToolResultError err), [])
      | Inr itemID \<Rightarrow>
     (case req ''updated_field'' of
        None \<Rightarrow> (Inr (ToolResultError ''missing required parameter: updated_field''), [])
      | Some rawUpdatedField \<Rightarrow>
     (case rawUpdatedField of
        JObject kvs \<Rightarrow>
     (case buildUpdateProjectItem (Some (map_of kvs)) of
        Inl err \<Rightarrow> (Inr (ToolResultError err), [])
      | Inr updatePayload \<Rightarrow>
     (case getClient_err d of
        Some err \<Rightarrow> (Inr (ToolResultError err), [])
      | None \<Rightarrow>
     (let projectsURL = item_url ownerType owner projectNumber itemID;
          payload = \<lparr>updateProjectItemPayload.Fields = [updatePayload]\<rparr>
      in case NewRequest_err d ''PATCH'' projectsURL (UpdateProjectItemBody payload) of
           Some err \<Rightarrow> (Inl (''failed to create request: '' @ err), [])
         | None \<Rightarrow>
     (let httpRequest = \<lparr>httpMethod = ''PATCH'', urlStr = projectsURL,
                          body = UpdateProjectItemBody payload\<rparr>
      in case Do d httpRequest of
           DoError resp err \<Rightarrow>
             (Inr (NewGitHubAPIErrorResponse ProjectUpdateFailedError resp err), [httpRequest])
         | DoOK resp updatedItem \<Rightarrow>
             if StatusCode resp \<noteq> StatusOK then
               (case Body resp of
                  Inl err \<Rightarrow> (Inl (''failed to read response body: '' @ err), [httpRequest])
                | Inr b \<Rightarrow>
                    (Inr (ToolResultError (ProjectUpdateFailedError @ '': '' @ b)), [httpRequest]))
             else
               (case Marshal d (ItemValue updatedItem) of
                  Inl err \<Rightarrow> (Inl (''failed to marshal response: '' @ err), [httpRequest])
                | Inr r \<Rightarrow> (Inr (ToolResultText r), [httpRequest]))))))
      | _ \<Rightarrow> (Inr (ToolResultError ''field_value must be an object''), [])))))))"

definition DeleteProjectItem :: "unit deps \<Rightarrow> arguments \<Rightarrow> outcome" where
  "DeleteProjectItem d req =
     (case RequiredParam_string req ''owner'' of
        Inl err \<Rightarrow> (Inr (ToolResultError err), [])
      | Inr owner \<Rightarrow>
     (case RequiredParam_string req ''owner_type'' of
        Inl err \<Rightarrow> (Inr (ToolResultError err), [])
      | Inr ownerType \<Rightarrow>
     (case RequiredInt req ''project_number'' of
        Inl err \<Rightarrow> (Inr (ToolResultError err), [])
      | Inr projectNumber \<Rightarrow>
     (case RequiredInt req ''item_id'' of
        Inl err \<Rightarrow> (Inr (ToolResultError err), [])
      | Inr itemID \<Rightarrow>
     (case getClient_err d of
        Some err \<Rightarrow> (Inr (ToolResultError err), [])
      | None \<Rightarrow>
     (let projectsURL = item_url ownerType owner projectNumber itemID
      in case NewRequest_err d ''DELETE'' projectsURL NoBody of
           Some err \<Rightarrow> (Inl (''failed to create request: '' @ err), [])
         | None \<Rightarrow>
     (let httpRequest = \<lparr>httpMethod = ''DELETE'', urlStr = projectsURL, body = NoBody\<rparr>
      in case Do d httpRequest of
           DoError resp err \<Rightarrow>
             (Inr (NewGitHubAPIErrorResponse ProjectDeleteFailedError resp err), [httpRequest])
         | DoOK resp u \<Rightarrow>
             if StatusCode resp \<noteq> StatusNoContent then
               (case Body resp of
                  Inl err \<Rightarrow> (Inl (''failed to read response body: '' @ err), [httpRequest])
                | Inr b \<Rightarrow>
                    (Inr (ToolResultError (ProjectDeleteFailedError @ '': '' @ b)), [httpRequest]))
             else (Inr (ToolResultText ''project item successfully deleted''), [httpRequest]))))))))"

section \<open>Example calls\<close>

text \<open>
  A transport in which \<open>getClient\<close> and \<open>client.NewRequest\<close> succeed, \<open>client.Do\<close>
  answers every request with \<open>r\<close>, and \<open>json.Marshal\<close> returns the text \<open>t\<close>.
\<close>

definition example_deps :: "'a do_result \<Rightarrow> string \<Rightarrow> 'a deps" where
  "example_deps r t =
     \<lparr>getClient_err = None,
      NewRequest_err = (\<lambda>m u b. None),
      Do = (\<lambda>q. r),
      Marshal = (\<lambda>v. Inr t)\<rparr>"

definition example_response :: "int \<Rightarrow> string \<Rightarrow> Response" where
  "example_response status text =
     \<lparr>StatusCode = status, Body = Inr text, Response.After = [], Response.Before = []\<rparr>"

definition example_item :: projectV2Item where
  "example_item =
     \<lparr>ArchivedAt = None, Content = None, ContentType = Some ''Issue'', CreatedAt = None,
      Creator = None, Description = None, projectV2Item.Fields = [],
      projectV2Item.ID = Some 42, ItemURL = None, NodeID = None, ProjectURL = None,
      Title = None, UpdatedAt = None\<rparr>"

definition list_request :: arguments where
  "list_request =
     [''owner'' \<mapsto> JString ''octo-org'', ''owner_type'' \<mapsto> JString ''org'',
      ''project_number'' \<mapsto> JNumber 7, ''per_page'' \<mapsto> JNumber 200]"

definition add_request :: "string \<Rightarrow> arguments" where
  "add_request itemType =
     [''owner'' \<mapsto> JString ''octo-org'', ''owner_type'' \<mapsto> JString ''org'',
      ''project_number'' \<mapsto> JNumber 7, ''item_id'' \<mapsto> JNumber 42,
      ''item_type'' \<mapsto> JString itemType]"

definition update_request :: "(string \<times> json) list \<Rightarrow> arguments" where
  "update_request updatedField =
     [''owner'' \<mapsto> JString ''octo-org'', ''owner_type'' \<mapsto> JString ''org'',
      ''project_number'' \<mapsto> JNumber 7, ''item_id'' \<mapsto> JNumber 42,
      ''updated_field'' \<mapsto> JObject updatedField]"

definition delete_request :: arguments where
  "delete_request =
     [''owner'' \<mapsto> JString ''octo-org'', ''owner_type'' \<mapsto> JString ''org'',
      ''project_number'' \<mapsto> JNumber 7, ''item_id'' \<mapsto> JNumber 42]"

section \<open>Properties of the pagination options\<close>

lemma int_of_float64_ge:
  assumes "50 < n"
  shows "50 \<le> int_of_float64 n"
proof -
  have "(of_int 50 :: rat) \<le> n" using assms by simp
  then have "50 \<le> \<lfloor>n\<rfloor>" by (simp only: le_floor_iff)
  moreover have "\<not> n < 0" using assms by simp
  ultimately show ?thesis by (simp add: int_of_float64_def)
qed

lemma extractPaginationOptions_le:
  "extractPaginationOptions request = Inr p \<Longrightarrow> PerPage p \<le> 50"
  by (auto simp: extractPaginationOptions_def MaxProjectsPerPage_def Let_def
      split: sum.splits if_splits)



section \<open>Properties of the field filter and the page info\<close>

lemma filterSpecialTypes_loop_eq:
  "filterSpecialTypes_loop g out fs = out @ filter (\<lambda>f. g f \<notin> specialFieldDataTypes) fs"
  by (induction fs arbitrary: out) (simp_all add: Let_def)

lemma filterSpecialTypes_eq_filter:
  "filterSpecialTypes g fs = filter (\<lambda>f. g f \<notin> specialFieldDataTypes) fs"
  by (cases fs) (simp_all add: filterSpecialTypes_def filterSpecialTypes_loop_eq)


lemma ToLower_Labels: "ToLower ''Labels'' = ''labels''"
  by (simp add: ToLower_def lower_byte_def)

lemma filterSpecialTypes_example:
  "filterSpecialTypes projectV2ItemFieldValue_getDataType
     [Some \<lparr>projectV2ItemFieldValue.ID = Some 1, Name = ''Labels'', DataType = ''Labels'', Value = JNull\<rparr>,
      None,
      Some \<lparr>projectV2ItemFieldValue.ID = Some 2, Name = ''Notes'', DataType = ''text'', Value = JString ''x''\<rparr>]
   = [None,
      Some \<lparr>projectV2ItemFieldValue.ID = Some 2, Name = ''Notes'', DataType = ''text'', Value = JString ''x''\<rparr>]"
  by (simp add: filterSpecialTypes_def Let_def projectV2ItemFieldValue_getDataType_def
      ToLower_def lower_byte_def specialFieldDataTypes_def)

text \<open>
  C7. Filtering twice is filtering once, the result is a subsequence of the input (the
  records that are kept stay in their order), and the empty sequence gives the empty
  sequence.
\<close>

theorem filterSpecialTypes_idempotent_ordered:
  "filterSpecialTypes g (filterSpecialTypes g fs) = filterSpecialTypes g fs \<and>
   subseq (filterSpecialTypes g fs) fs \<and>
   filterSpecialTypes g [] = []"
  by (simp add: filterSpecialTypes_eq_filter)

text \<open>
  C3. The page info has a next page exactly when the after-token is not empty, a
  previous page exactly when the before-token is not empty, and carries both tokens
  unchanged; in its JSON form the key \<open>nextCursor\<close> is present exactly when there is
  a next page and \<open>prevCursor\<close> exactly when there is a previous page.
\<close>

theorem buildPageInfo_cursors:
  "HasNextPage (buildPageInfo resp) = (Response.After resp \<noteq> []) \<and>
   HasPreviousPage (buildPageInfo resp) = (Response.Before resp \<noteq> []) \<and>
   NextCursor (buildPageInfo resp) = Response.After resp \<and>
   PrevCursor (buildPageInfo resp) = Response.Before resp \<and>
   (''nextCursor'' \<in> set (json_keys (pageInfo_json (buildPageInfo resp)))
      = HasNextPage (buildPageInfo resp)) \<and>
   (''prevCursor'' \<in> set (json_keys (pageInfo_json (buildPageInfo resp)))
      = HasPreviousPage (buildPageInfo resp)) \<and>
   json_member (pageInfo_json (buildPageInfo resp)) ''nextCursor''
      = (if Response.After resp = [] then None else Some (JString (Response.After resp))) \<and>
   json_member (pageInfo_json (buildPageInfo resp)) ''prevCursor''
      = (if Response.Before resp = [] then None else Some (JString (Response.Before resp)))"
  by (simp add: buildPageInfo_def pageInfo_json_def json_keys_def json_member_def)

section \<open>Properties of the options encoder\<close>

lemma upperhex_nth_no_sep:
  assumes "k < 16"
  shows "upperhex ! k \<noteq> CHR ''&'' \<and> upperhex ! k \<noteq> CHR ''=''"
proof -
  have "upperhex ! k \<in> set upperhex"
    using assms by (intro nth_mem) (simp add: upperhex_def)
  then show ?thesis by (auto simp: upperhex_def)
qed

lemma of_char_div_16: "(of_char c :: nat) div 16 < 16"
proof -
  have "(of_char c :: nat) < 16 * 16" using nat_of_char_less_256 [of c] by simp
  then show ?thesis by (rule less_mult_imp_div_less)
qed

lemma escape_byte_query_no_sep:
  "CHR ''&'' \<notin> set (escape_byte c encodeQueryComponent) \<and>
   CHR ''='' \<notin> set (escape_byte c encodeQueryComponent)"
proof (cases "shouldEscape c encodeQueryComponent")
  case True
  then show ?thesis
    using upperhex_nth_no_sep [OF of_char_div_16 [of c]]
      upperhex_nth_no_sep [of "of_char c mod 16"]
    by (auto simp: escape_byte_def)
next
  case False
  then have "c \<noteq> CHR ''&''" "c \<noteq> CHR ''=''"
    by (auto simp: shouldEscape_def is_alnum_def)
  with False show ?thesis by (simp add: escape_byte_def)
qed

lemma QueryEscape_no_sep:
  "CHR ''&'' \<notin> set (QueryEscape s) \<and> CHR ''='' \<notin> set (QueryEscape s)"
  using escape_byte_query_no_sep by (auto simp: QueryEscape_def escape_def)

lemma split_on_no_sep: "sep \<notin> set x \<Longrightarrow> split_on sep x = [x]"
  by (induction x) auto

lemma split_on_append: "sep \<notin> set x \<Longrightarrow> split_on sep (x @ sep # r) = x # split_on sep r"
  by (induction x) auto

lemma takeWhile_key: "CHR ''='' \<notin> set k \<Longrightarrow> takeWhile (\<lambda>c. c \<noteq> CHR ''='') (k @ CHR ''='' # v) = k"
  by (induction k) auto

lemma split_on_Join:
  assumes "\<forall>x \<in> set xs. sep \<notin> set x" "xs \<noteq> []"
  shows "split_on sep (Join xs [sep]) = xs"
  using assms
proof (induction xs "[sep]" rule: Join.induct)
  case 1
  then show ?case by simp
next
  case (2 x)
  then show ?case by (simp add: split_on_no_sep)
next
  case (3 x y zs)
  then show ?case by (simp add: split_on_append)
qed

lemma Join_eq_Nil: "Join xs sep = [] \<Longrightarrow> \<forall>x \<in> set xs. x = []"
  by (induction xs sep rule: Join.induct) auto

lemma query_keys_Join:
  "query_keys (Join (map (\<lambda>(k, v). QueryEscape k @ ''='' @ QueryEscape v) kvs) ''&'')
     = map (\<lambda>(k, v). QueryEscape k) kvs"
proof (cases "kvs = []")
  case True
  then show ?thesis by (simp add: query_keys_def)
next
  case False
  let ?parts = "map (\<lambda>(k, v). QueryEscape k @ ''='' @ QueryEscape v) kvs"
  have ne: "Join ?parts ''&'' \<noteq> []"
  proof
    assume "Join ?parts ''&'' = []"
    then have "\<forall>x \<in> set ?parts. x = []" by (rule Join_eq_Nil)
    with False show False by (cases kvs) auto
  qed
  have nosep: "\<forall>x \<in> set ?parts. CHR ''&'' \<notin> set x"
    using QueryEscape_no_sep by auto
  have "split_on (CHR ''&'') (Join ?parts ''&'') = ?parts"
    using nosep False by (intro split_on_Join) auto
  with ne show ?thesis
    using QueryEscape_no_sep by (auto simp: query_keys_def takeWhile_key)
qed

lemma nat_digits_ne: "nat_digits n \<noteq> []"
  by (subst nat_digits.simps) simp

lemma Itoa_ne: "Itoa i \<noteq> []"
  by (simp add: Itoa_def nat_digits_ne)

lemma listProjectItemsOptions_encode:
  "Values_Encode (listProjectItemsOptions_values l []) =
     Join (map (\<lambda>(k, v). QueryEscape k @ ''='' @ QueryEscape v)
       (filter (\<lambda>(k, v). v \<noteq> [])
          [(''after'', paginationOptions.After (paginationOptions l)),
           (''before'', paginationOptions.Before (paginationOptions l)),
           (''fields'', fieldSelectionOptions.Fields (fieldSelectionOptions l)),
           (''per_page'', if PerPage (paginationOptions l) = 0 then []
                          else Itoa (PerPage (paginationOptions l))),
           (''q'', Query (filterQueryOptions l))])) ''&''"
  by (simp add: Values_Encode_def listProjectItemsOptions_values_def
      paginationOptions_values_def filterQueryOptions_values_def
      fieldSelectionOptions_values_def sort_keys_def Itoa_ne Let_def)

lemma QueryEscape_keys:
  "QueryEscape ''after'' = ''after''" "QueryEscape ''before'' = ''before''"
  "QueryEscape ''fields'' = ''fields''" "QueryEscape ''per_page'' = ''per_page''"
  "QueryEscape ''q'' = ''q''"
  by (simp_all add: QueryEscape_def escape_def escape_byte_def shouldEscape_def is_alnum_def)

lemma listProjectItemsOptions_keys:
  "query_keys (Values_Encode (listProjectItemsOptions_values l [])) =
     (if paginationOptions.After (paginationOptions l) = [] then [] else [''after''])
     @ (if paginationOptions.Before (paginationOptions l) = [] then [] else [''before''])
     @ (if fieldSelectionOptions.Fields (fieldSelectionOptions l) = [] then [] else [''fields''])
     @ (if PerPage (paginationOptions l) = 0 then [] else [''per_page''])
     @ (if Query (filterQueryOptions l) = [] then [] else [''q''])"
  unfolding listProjectItemsOptions_encode query_keys_Join
  by (simp add: QueryEscape_keys Itoa_ne)

lemma paginationOptions_encode:
  "Values_Encode (paginationOptions_values p []) =
     Join (map (\<lambda>(k, v). QueryEscape k @ ''='' @ QueryEscape v)
       (filter (\<lambda>(k, v). v \<noteq> [])
          [(''after'', paginationOptions.After p),
           (''before'', paginationOptions.Before p),
           (''per_page'', if PerPage p = 0 then [] else Itoa (PerPage p))])) ''&''"
  by (simp add: Values_Encode_def paginationOptions_values_def sort_keys_def Itoa_ne Let_def)

lemma fieldSelectionOptions_encode:
  "Values_Encode (fieldSelectionOptions_values f []) =
     Join (map (\<lambda>(k, v). QueryEscape k @ ''='' @ QueryEscape v)
       (filter (\<lambda>(k, v). v \<noteq> []) [(''fields'', fieldSelectionOptions.Fields f)])) ''&''"
  by (simp add: Values_Encode_def fieldSelectionOptions_values_def sort_keys_def)

lemma paginationOptions_keys:
  "query_keys (Values_Encode (paginationOptions_values p [])) =
     (if paginationOptions.After p = [] then [] else [''after''])
     @ (if paginationOptions.Before p = [] then [] else [''before''])
     @ (if PerPage p = 0 then [] else [''per_page''])"
  unfolding paginationOptions_encode query_keys_Join
  by (simp add: QueryEscape_keys Itoa_ne)

lemma fieldSelectionOptions_keys:
  "query_keys (Values_Encode (fieldSelectionOptions_values f [])) =
     (if fieldSelectionOptions.Fields f = [] then [] else [''fields''])"
  unfolding fieldSelectionOptions_encode query_keys_Join
  by (simp add: QueryEscape_keys)

lemma addOptions_Some_Inr:
  assumes "addOptions s opts = Some (Inr t)" "opts \<noteq> NilPointer"
  shows "\<exists>u qs. url_Parse s = Some (Inr u) \<and> query_Values opts = Inr qs \<and>
           t = url_String (u\<lparr>RawQuery := Values_Encode qs\<rparr>)"
  using assms by (auto simp: addOptions_def split: option.splits sum.splits)

text \<open>
  C6. The target \<open>addOptions\<close> returns has the encoding of the option values as its
  query, and the keys of that query are exactly the keys of the non-empty fields:
  \<open>per_page\<close> is absent when the page size is 0, \<open>after\<close>, \<open>before\<close>, \<open>q\<close> and
  \<open>fields\<close> are absent when their string is empty. A group whose values are all empty
  contributes nothing, and when every group is empty the query is empty.
\<close>

theorem addOptions_omits_empty:
  "(addOptions s (ListProjectItemsOptions l) = Some (Inr t) \<longrightarrow>
      (\<exists>u. url_Parse s = Some (Inr u) \<and>
           t = url_String (u\<lparr>RawQuery := Values_Encode (listProjectItemsOptions_values l [])\<rparr>))) \<and>
   (addOptions s (PaginationOptions p) = Some (Inr t) \<longrightarrow>
      (\<exists>u. url_Parse s = Some (Inr u) \<and>
           t = url_String (u\<lparr>RawQuery := Values_Encode (paginationOptions_values p [])\<rparr>))) \<and>
   (addOptions s (FieldSelectionOptions f) = Some (Inr t) \<longrightarrow>
      (\<exists>u. url_Parse s = Some (Inr u) \<and>
           t = url_String (u\<lparr>RawQuery := Values_Encode (fieldSelectionOptions_values f [])\<rparr>))) \<and>
   query_keys (Values_Encode (listProjectItemsOptions_values l [])) =
     (if paginationOptions.After (paginationOptions l) = [] then [] else [''after''])
     @ (if paginationOptions.Before (paginationOptions l) = [] then [] else [''before''])
     @ (if fieldSelectionOptions.Fields (fieldSelectionOptions l) = [] then [] else [''fields''])
     @ (if PerPage (paginationOptions l) = 0 then [] else [''per_page''])
     @ (if Query (filterQueryOptions l) = [] then [] else [''q'']) \<and>
   query_keys (Values_Encode (paginationOptions_values p [])) =
     (if paginationOptions.After p = [] then [] else [''after''])
     @ (if paginationOptions.Before p = [] then [] else [''before''])
     @ (if PerPage p = 0 then [] else [''per_page'']) \<and>
   query_keys (Values_Encode (fieldSelectionOptions_values f [])) =
     (if fieldSelectionOptions.Fields f = [] then [] else [''fields'']) \<and>
   (PerPage p = 0 \<and> paginationOptions.After p = [] \<and> paginationOptions.Before p = [] \<longrightarrow>
      Values_Encode (paginationOptions_values p []) = []) \<and>
   (fieldSelectionOptions.Fields f = [] \<longrightarrow> Values_Encode (fieldSelectionOptions_values f []) = []) \<and>
   (PerPage (paginationOptions l) = 0 \<and> paginationOptions.After (paginationOptions l) = [] \<and>
    paginationOptions.Before (paginationOptions l) = [] \<and> Query (filterQueryOptions l) = [] \<and>
    fieldSelectionOptions.Fields (fieldSelectionOptions l) = [] \<longrightarrow>
      Values_Encode (listProjectItemsOptions_values l []) = [])"
proof (intro conjI impI)
  assume "addOptions s (ListProjectItemsOptions l) = Some (Inr t)"
  then show "\<exists>u. url_Parse s = Some (Inr u) \<and>
      t = url_String (u\<lparr>RawQuery := Values_Encode (listProjectItemsOptions_values l [])\<rparr>)"
    by (auto dest!: addOptions_Some_Inr simp: query_Values_def)
next
  assume "addOptions s (PaginationOptions p) = Some (Inr t)"
  then show "\<exists>u. url_Parse s = Some (Inr u) \<and>
      t = url_String (u\<lparr>RawQuery := Values_Encode (paginationOptions_values p [])\<rparr>)"
    by (auto dest!: addOptions_Some_Inr simp: query_Values_def)
next
  assume "addOptions s (FieldSelectionOptions f) = Some (Inr t)"
  then show "\<exists>u. url_Parse s = Some (Inr u) \<and>
      t = url_String (u\<lparr>RawQuery := Values_Encode (fieldSelectionOptions_values f [])\<rparr>)"
    by (auto dest!: addOptions_Some_Inr simp: query_Values_def)
next
  show "query_keys (Values_Encode (listProjectItemsOptions_values l [])) =
     (if paginationOptions.After (paginationOptions l) = [] then [] else [''after''])
     @ (if paginationOptions.Before (paginationOptions l) = [] then [] else [''before''])
     @ (if fieldSelectionOptions.Fields (fieldSelectionOptions l) = [] then [] else [''fields''])
     @ (if PerPage (paginationOptions l) = 0 then [] else [''per_page''])
     @ (if Query (filterQueryOptions l) = [] then [] else [''q''])"
    by (rule listProjectItemsOptions_keys)
next
  show "query_keys (Values_Encode (paginationOptions_values p [])) =
     (if paginationOptions.After p = [] then [] else [''after''])
     @ (if paginationOptions.Before p = [] then [] else [''before''])
     @ (if PerPage p = 0 then [] else [''per_page''])"
    by (rule paginationOptions_keys)
next
  show "query_keys (Values_Encode (fieldSelectionOptions_values f [])) =
     (if fieldSelectionOptions.Fields f = [] then [] else [''fields''])"
    by (rule fieldSelectionOptions_keys)
next
  assume "PerPage p = 0 \<and> paginationOptions.After p = [] \<and> paginationOptions.Before p = []"
  then show "Values_Encode (paginationOptions_values p []) = []"
    by (simp add: paginationOptions_encode)
next
  assume "fieldSelectionOptions.Fields f = []"
  then show "Values_Encode (fieldSelectionOptions_values f []) = []"
    by (simp add: fieldSelectionOptions_encode)
next
  assume "PerPage (paginationOptions l) = 0 \<and> paginationOptions.After (paginationOptions l) = [] \<and>
    paginationOptions.Before (paginationOptions l) = [] \<and> Query (filterQueryOptions l) = [] \<and>
    fieldSelectionOptions.Fields (fieldSelectionOptions l) = []"
  then show "Values_Encode (listProjectItemsOptions_values l []) = []"
    by (simp add: listProjectItemsOptions_encode)
qed

lemma addOptions_example_default:
  "addOptions ''orgs/octo-org/projectsV2/7/items''
     (ListProjectItemsOptions
        \<lparr>paginationOptions =
           \<lparr>PerPage = 0, paginationOptions.After = [], paginationOptions.Before = []\<rparr>,
         filterQueryOptions = \<lparr>Query = []\<rparr>,
         fieldSelectionOptions = \<lparr>fieldSelectionOptions.Fields = []\<rparr>\<rparr>)
   = Some (Inr ''orgs/octo-org/projectsV2/7/items'')"
  by code_simp

theorem addOptions_omits_empty_witness:
  "(\<exists>u. url_Parse ''orgs/octo-org/projectsV2/7/items'' = Some (Inr u) \<and>
        ''orgs/octo-org/projectsV2/7/items'' =
          url_String (u\<lparr>RawQuery := Values_Encode (listProjectItemsOptions_values
            \<lparr>paginationOptions =
               \<lparr>PerPage = 0, paginationOptions.After = [], paginationOptions.Before = []\<rparr>,
             filterQueryOptions = \<lparr>Query = []\<rparr>,
             fieldSelectionOptions = \<lparr>fieldSelectionOptions.Fields = []\<rparr>\<rparr> [])\<rparr>)) \<and>
   Values_Encode (listProjectItemsOptions_values
      \<lparr>paginationOptions =
         \<lparr>PerPage = 0, paginationOptions.After = [], paginationOptions.Before = []\<rparr>,
       filterQueryOptions = \<lparr>Query = []\<rparr>,
       fieldSelectionOptions = \<lparr>fieldSelectionOptions.Fields = []\<rparr>\<rparr> []) = [] \<and>
   Values_Encode (paginationOptions_values
      \<lparr>PerPage = 0, paginationOptions.After = [], paginationOptions.Before = []\<rparr> []) = [] \<and>
   Values_Encode (fieldSelectionOptions_values \<lparr>fieldSelectionOptions.Fields = []\<rparr> []) = []"
proof -
  note t = addOptions_omits_empty
      [of "''orgs/octo-org/projectsV2/7/items''"
          "\<lparr>paginationOptions =
              \<lparr>PerPage = 0, paginationOptions.After = [], paginationOptions.Before = []\<rparr>,
            filterQueryOptions = \<lparr>Query = []\<rparr>,
            fieldSelectionOptions = \<lparr>fieldSelectionOptions.Fields = []\<rparr>\<rparr>"
          "''orgs/octo-org/projectsV2/7/items''"
          "\<lparr>PerPage = 0, paginationOptions.After = [], paginationOptions.Before = []\<rparr>"
          "\<lparr>fieldSelectionOptions.Fields = []\<rparr>"]
  from t [THEN conjunct1] addOptions_example_default
  have "\<exists>u. url_Parse ''orgs/octo-org/projectsV2/7/items'' = Some (Inr u) \<and>
        ''orgs/octo-org/projectsV2/7/items'' =
          url_String (u\<lparr>RawQuery := Values_Encode (listProjectItemsOptions_values
            \<lparr>paginationOptions =
               \<lparr>PerPage = 0, paginationOptions.After = [], paginationOptions.Before = []\<rparr>,
             filterQueryOptions = \<lparr>Query = []\<rparr>,
             fieldSelectionOptions = \<lparr>fieldSelectionOptions.Fields = []\<rparr>\<rparr> [])\<rparr>)"
    by (rule mp)
  moreover from t
  have "Values_Encode (listProjectItemsOptions_values
      \<lparr>paginationOptions =
         \<lparr>PerPage = 0, paginationOptions.After = [], paginationOptions.Before = []\<rparr>,
       filterQueryOptions = \<lparr>Query = []\<rparr>,
       fieldSelectionOptions = \<lparr>fieldSelectionOptions.Fields = []\<rparr>\<rparr> []) = []"
    by simp
  moreover from t
  have "Values_Encode (paginationOptions_values
      \<lparr>PerPage = 0, paginationOptions.After = [], paginationOptions.Before = []\<rparr> []) = []"
    by simp
  moreover from t
  have "Values_Encode (fieldSelectionOptions_values \<lparr>fieldSelectionOptions.Fields = []\<rparr> []) = []"
    by simp
  ultimately show ?thesis by (intro conjI)
qed

section \<open>How a handler reaches its request\<close>

lemma int_of_float64_of_int [simp]: "int_of_float64 (of_int i) = i"
  by (simp add: int_of_float64_def)

lemma int_of_float64_numeral [simp]: "int_of_float64 (numeral k) = numeral k"
  by (simp add: int_of_float64_def)

lemma Itoa_7: "Itoa 7 = ''7''" by (simp add: Itoa_def nat_digits.simps)
lemma Itoa_42: "Itoa 42 = ''42''" by (simp add: Itoa_def nat_digits.simps)

lemma update_request_params:
  "RequiredParam_string (update_request f) ''owner'' = Inr ''octo-org''"
  "RequiredParam_string (update_request f) ''owner_type'' = Inr ''org''"
  "RequiredInt (update_request f) ''project_number'' = Inr 7"
  "RequiredInt (update_request f) ''item_id'' = Inr 42"
  "update_request f ''updated_field'' = Some (JObject f)"
  by (simp_all add: update_request_def RequiredParam_string_def RequiredInt_def)

lemma add_request_params:
  "RequiredParam_string (add_request t) ''owner'' = Inr ''octo-org''"
  "RequiredParam_string (add_request t) ''owner_type'' = Inr ''org''"
  "RequiredInt (add_request t) ''project_number'' = Inr 7"
  "RequiredInt (add_request t) ''item_id'' = Inr 42"
  "RequiredParam_string (add_request t) ''item_type'' = Inr t"
  by (simp_all add: add_request_def RequiredParam_string_def RequiredInt_def)

lemma delete_request_params:
  "RequiredParam_string delete_request ''owner'' = Inr ''octo-org''"
  "RequiredParam_string delete_request ''owner_type'' = Inr ''org''"
  "RequiredInt delete_request ''project_number'' = Inr 7"
  "RequiredInt delete_request ''item_id'' = Inr 42"
  by (simp_all add: delete_request_def RequiredParam_string_def RequiredInt_def)

lemma toNewProjectType_values:
  "toNewProjectType ''issue'' = ''Issue''" "toNewProjectType ''pull_request'' = ''PullRequest''"
  by (simp_all add: toNewProjectType_def ToLower_def lower_byte_def)

lemma AddProjectItem_reaches_Do:
  assumes "snd (AddProjectItem d req) \<noteq> [] \<or>
           (\<exists>t. fst (AddProjectItem d req) = Inr (ToolResultText t))"
  obtains owner ownerType projectNumber itemID itemType where
    "RequiredParam_string req ''owner'' = Inr owner"
    "RequiredParam_string req ''owner_type'' = Inr ownerType"
    "RequiredInt req ''project_number'' = Inr projectNumber"
    "RequiredInt req ''item_id'' = Inr itemID"
    "RequiredParam_string req ''item_type'' = Inr itemType"
    "itemType = ''issue'' \<or> itemType = ''pull_request''"
    "getClient_err d = None"
    "NewRequest_err d ''POST'' (items_url ownerType owner projectNumber)
       (NewProjectItemBody \<lparr>newProjectItem.ID = itemID, Type = toNewProjectType itemType\<rparr>) = None"
proof -
  obtain owner where 1: "RequiredParam_string req ''owner'' = Inr owner"
    using assms by (cases "RequiredParam_string req ''owner''") (auto simp: AddProjectItem_def)
  obtain ownerType where 2: "RequiredParam_string req ''owner_type'' = Inr ownerType"
    using assms 1
    by (cases "RequiredParam_string req ''owner_type''") (auto simp: AddProjectItem_def)
  obtain projectNumber where 3: "RequiredInt req ''project_number'' = Inr projectNumber"
    using assms 1 2
    by (cases "RequiredInt req ''project_number''") (auto simp: AddProjectItem_def)
  obtain itemID where 4: "RequiredInt req ''item_id'' = Inr itemID"
    using assms 1 2 3
    by (cases "RequiredInt req ''item_id''") (auto simp: AddProjectItem_def)
  obtain itemType where 5: "RequiredParam_string req ''item_type'' = Inr itemType"
    using assms 1 2 3 4
    by (cases "RequiredParam_string req ''item_type''") (auto simp: AddProjectItem_def)
  have 6: "itemType = ''issue'' \<or> itemType = ''pull_request''"
    using assms 1 2 3 4 5
    by (cases "itemType \<noteq> ''issue'' \<and> itemType \<noteq> ''pull_request''")
       (auto simp: AddProjectItem_def)
  have 7: "getClient_err d = None"
    using assms 1 2 3 4 5 6
    by (cases "getClient_err d") (auto simp: AddProjectItem_def)
  have 8: "NewRequest_err d ''POST'' (items_url ownerType owner projectNumber)
       (NewProjectItemBody \<lparr>newProjectItem.ID = itemID, Type = toNewProjectType itemType\<rparr>) = None"
    using assms 1 2 3 4 5 6 7
    by (cases "NewRequest_err d ''POST'' (items_url ownerType owner projectNumber)
       (NewProjectItemBody \<lparr>newProjectItem.ID = itemID, Type = toNewProjectType itemType\<rparr>)")
       (auto simp: AddProjectItem_def)
  from 1 2 3 4 5 6 7 8 show thesis by (rule that)
qed

lemma AddProjectItem_after_request:
  assumes "RequiredParam_string req ''owner'' = Inr owner"
    "RequiredParam_string req ''owner_type'' = Inr ownerType"
    "RequiredInt req ''project_number'' = Inr projectNumber"
    "RequiredInt req ''item_id'' = Inr itemID"
    "RequiredParam_string req ''item_type'' = Inr itemType"
    "itemType = ''issue'' \<or> itemType = ''pull_request''"
    "getClient_err d = None"
    "NewRequest_err d ''POST'' (items_url ownerType owner projectNumber)
       (NewProjectItemBody \<lparr>newProjectItem.ID = itemID, Type = toNewProjectType itemType\<rparr>) = None"
    "R = \<lparr>httpMethod = ''POST'', urlStr = items_url ownerType owner projectNumber,
          body = NewProjectItemBody
            \<lparr>newProjectItem.ID = itemID, Type = toNewProjectType itemType\<rparr>\<rparr>"
  shows "AddProjectItem d req =
     ((case Do d R of
         DoError resp err \<Rightarrow> Inr (NewGitHubAPIErrorResponse ProjectAddFailedError resp err)
       | DoOK resp addedItem \<Rightarrow>
           if StatusCode resp \<noteq> StatusCreated then
             (case Body resp of
                Inl err \<Rightarrow> Inl (''failed to read response body: '' @ err)
              | Inr b \<Rightarrow> Inr (ToolResultError (ProjectAddFailedError @ '': '' @ b)))
           else
             (case Marshal d (ItemValue addedItem) of
                Inl err \<Rightarrow> Inl (''failed to marshal response: '' @ err)
              | Inr r \<Rightarrow> Inr (ToolResultText r))), [R])"
  using assms
  by (auto simp: AddProjectItem_def Let_def split: do_result.splits sum.splits)

lemma UpdateProjectItem_reaches_Do:
  assumes "snd (UpdateProjectItem d req) \<noteq> [] \<or>
           (\<exists>t. fst (UpdateProjectItem d req) = Inr (ToolResultText t))"
  obtains owner ownerType projectNumber itemID kvs p where
    "RequiredParam_string req ''owner'' = Inr owner"
    "RequiredParam_string req ''owner_type'' = Inr ownerType"
    "RequiredInt req ''project_number'' = Inr projectNumber"
    "RequiredInt req ''item_id'' = Inr itemID"
    "req ''updated_field'' = Some (JObject kvs)"
    "buildUpdateProjectItem (Some (map_of kvs)) = Inr p"
    "getClient_err d = None"
    "NewRequest_err d ''PATCH'' (item_url ownerType owner projectNumber itemID)
       (UpdateProjectItemBody \<lparr>updateProjectItemPayload.Fields = [p]\<rparr>) = None"
proof -
  obtain owner where 1: "RequiredParam_string req ''owner'' = Inr owner"
    using assms by (cases "RequiredParam_string req ''owner''") (auto simp: UpdateProjectItem_def)
  obtain ownerType where 2: "RequiredParam_string req ''owner_type'' = Inr ownerType"
    using assms 1
    by (cases "RequiredParam_string req ''owner_type''") (auto simp: UpdateProjectItem_def)
  obtain projectNumber where 3: "RequiredInt req ''project_number'' = Inr projectNumber"
    using assms 1 2
    by (cases "RequiredInt req ''project_number''") (auto simp: UpdateProjectItem_def)
  obtain itemID where 4: "RequiredInt req ''item_id'' = Inr itemID"
    using assms 1 2 3
    by (cases "RequiredInt req ''item_id''") (auto simp: UpdateProjectItem_def)
  obtain raw where 5: "req ''updated_field'' = Some raw"
    using assms 1 2 3 4
    by (cases "req ''updated_field''") (auto simp: UpdateProjectItem_def)
  obtain kvs where 6: "raw = JObject kvs"
    using assms 1 2 3 4 5
    by (cases raw) (auto simp: UpdateProjectItem_def)
  obtain p where 7: "buildUpdateProjectItem (Some (map_of kvs)) = Inr p"
    using assms 1 2 3 4 5 6
    by (cases "buildUpdateProjectItem (Some (map_of kvs))") (auto simp: UpdateProjectItem_def)
  have 8: "getClient_err d = None"
    using assms 1 2 3 4 5 6 7
    by (cases "getClient_err d") (auto simp: UpdateProjectItem_def)
  have 9: "NewRequest_err d ''PATCH'' (item_url ownerType owner projectNumber itemID)
       (UpdateProjectItemBody \<lparr>updateProjectItemPayload.Fields = [p]\<rparr>) = None"
    using assms 1 2 3 4 5 6 7 8
    by (cases "NewRequest_err d ''PATCH'' (item_url ownerType owner projectNumber itemID)
       (UpdateProjectItemBody \<lparr>updateProjectItemPayload.Fields = [p]\<rparr>)")
       (auto simp: UpdateProjectItem_def)
  from 1 2 3 4 5 [unfolded 6] 7 8 9 show thesis by (rule that)
qed

lemma UpdateProjectItem_after_request:
  assumes "RequiredParam_string req ''owner'' = Inr owner"
    "RequiredParam_string req ''owner_type'' = Inr ownerType"
    "RequiredInt req ''project_number'' = Inr projectNumber"
    "RequiredInt req ''item_id'' = Inr itemID"
    "req ''updated_field'' = Some (JObject kvs)"
    "buildUpdateProjectItem (Some (map_of kvs)) = Inr p"
    "getClient_err d = None"
    "NewRequest_err d ''PATCH'' (item_url ownerType owner projectNumber itemID)
       (UpdateProjectItemBody \<lparr>updateProjectItemPayload.Fields = [p]\<rparr>) = None"
    "R = \<lparr>httpMethod = ''PATCH'', urlStr = item_url ownerType owner projectNumber itemID,
          body = UpdateProjectItemBody \<lparr>updateProjectItemPayload.Fields = [p]\<rparr>\<rparr>"
  shows "UpdateProjectItem d req =
     ((case Do d R of
         DoError resp err \<Rightarrow> Inr (NewGitHubAPIErrorResponse ProjectUpdateFailedError resp err)
       | DoOK resp updatedItem \<Rightarrow>
           if StatusCode resp \<noteq> StatusOK then
             (case Body resp of
                Inl err \<Rightarrow> Inl (''failed to read response body: '' @ err)
              | Inr b \<Rightarrow> Inr (ToolResultError (ProjectUpdateFailedError @ '': '' @ b)))
           else
             (case Marshal d (ItemValue updatedItem) of
                Inl err \<Rightarrow> Inl (''failed to marshal response: '' @ err)
              | Inr r \<Rightarrow> Inr (ToolResultText r))), [R])"
  using assms
  by (auto simp: UpdateProjectItem_def Let_def split: do_result.splits sum.splits)

lemma DeleteProjectItem_reaches_Do:
  assumes "snd (DeleteProjectItem d req) \<noteq> [] \<or>
           (\<exists>t. fst (DeleteProjectItem d req) = Inr (ToolResultText t))"
  obtains owner ownerType projectNumber itemID where
    "RequiredParam_string req ''owner'' = Inr owner"
    "RequiredParam_string req ''owner_type'' = Inr ownerType"
    "RequiredInt req ''project_number'' = Inr projectNumber"
    "RequiredInt req ''item_id'' = Inr itemID"
    "getClient_err d = None"
    "NewRequest_err d ''DELETE'' (item_url ownerType owner projectNumber itemID) NoBody = None"
proof -
  obtain owner where 1: "RequiredParam_string req ''owner'' = Inr owner"
    using assms by (cases "RequiredParam_string req ''owner''") (auto simp: DeleteProjectItem_def)
  obtain ownerType where 2: "RequiredParam_string req ''owner_type'' = Inr ownerType"
    using assms 1
    by (cases "RequiredParam_string req ''owner_type''") (auto simp: DeleteProjectItem_def)
  obtain projectNumber where 3: "RequiredInt req ''project_number'' = Inr projectNumber"
    using assms 1 2
    by (cases "RequiredInt req ''project_number''") (auto simp: DeleteProjectItem_def)
  obtain itemID where 4: "RequiredInt req ''item_id'' = Inr itemID"
    using assms 1 2 3
    by (cases "RequiredInt req ''item_id''") (auto simp: DeleteProjectItem_def)
  have 5: "getClient_err d = None"
    using assms 1 2 3 4
    by (cases "getClient_err d") (auto simp: DeleteProjectItem_def)
  have 6: "NewRequest_err d ''DELETE'' (item_url ownerType owner projectNumber itemID) NoBody = None"
    using assms 1 2 3 4 5
    by (cases "NewRequest_err d ''DELETE'' (item_url ownerType owner projectNumber itemID) NoBody")
       (auto simp: DeleteProjectItem_def)
  from 1 2 3 4 5 6 show thesis by (rule that)
qed

lemma DeleteProjectItem_after_request:
  assumes "RequiredParam_string req ''owner'' = Inr owner"
    "RequiredParam_string req ''owner_type'' = Inr ownerType"
    "RequiredInt req ''project_number'' = Inr projectNumber"
    "RequiredInt req ''item_id'' = Inr itemID"
    "getClient_err d = None"
    "NewRequest_err d ''DELETE'' (item_url ownerType owner projectNumber itemID) NoBody = None"
    "R = \<lparr>httpMethod = ''DELETE'', urlStr = item_url ownerType owner projectNumber itemID,
          body = NoBody\<rparr>"
  shows "DeleteProjectItem d req =
     ((case Do d R of
         DoError resp err \<Rightarrow> Inr (NewGitHubAPIErrorResponse ProjectDeleteFailedError resp err)
       | DoOK resp u \<Rightarrow>
           if StatusCode resp \<noteq> StatusNoContent then
             (case Body resp of
                Inl err \<Rightarrow> Inl (''failed to read response body: '' @ err)
              | Inr b \<Rightarrow> Inr (ToolResultError (ProjectDeleteFailedError @ '': '' @ b)))
           else Inr (ToolResultText ''project item successfully deleted'')), [R])"
  using assms
  by (auto simp: DeleteProjectItem_def Let_def split: do_result.splits sum.splits)

lemma getScheme_orgs:
  "getScheme (CHR ''o'' # CHR ''r'' # CHR ''g'' # CHR ''s'' # CHR ''/'' # x) =
     Inr ([], CHR ''o'' # CHR ''r'' # CHR ''g'' # CHR ''s'' # CHR ''/'' # x)"
  by (simp add: getScheme_def)

lemma getScheme_users:
  "getScheme (CHR ''u'' # CHR ''s'' # CHR ''e'' # CHR ''r'' # CHR ''s'' # CHR ''/'' # x) =
     Inr ([], CHR ''u'' # CHR ''s'' # CHR ''e'' # CHR ''r'' # CHR ''s'' # CHR ''/'' # x)"
  by (simp add: getScheme_def)

lemma parse_no_scheme:
  assumes "getScheme raw = Inr ([], raw)" "raw \<noteq> []" "hd raw \<noteq> CHR ''/''" "hd raw \<noteq> CHR ''?''"
  shows "parse raw \<noteq> None"
proof -
  obtain c cs where raw: "raw = c # cs" using assms(2) by (cases raw) auto
  with assms(3,4) have c: "c \<noteq> CHR ''/''" "c \<noteq> CHR ''?''" by auto
  have 1: "\<not> HasPrefix (butlast raw) ''//''"
    using c raw by (simp add: HasPrefix_def)
  have 2: "\<not> HasPrefix (fst (Cut raw (CHR ''?''))) ''//''"
    using c raw by (simp add: HasPrefix_def Cut_def)
  show ?thesis
    using assms(1) 1 2
    by (simp add: parse_def Let_def split: sum.splits)
qed

lemma parse_orgs: "parse (''orgs/'' @ x) \<noteq> None"
  by (rule parse_no_scheme) (simp_all add: getScheme_orgs)

lemma parse_users: "parse (''users/'' @ x) \<noteq> None"
  by (rule parse_no_scheme) (simp_all add: getScheme_users)

lemma url_Parse_orgs: "url_Parse (''orgs/'' @ x) \<noteq> None"
proof -
  have "fst (Cut (''orgs/'' @ x) (CHR ''#'')) = ''orgs/'' @ fst (Cut x (CHR ''#''))"
    by (simp add: Cut_def)
  then show ?thesis
    using parse_orgs [of "fst (Cut x (CHR ''#''))"]
    by (auto simp: url_Parse_def Let_def split: option.splits sum.splits)
qed

lemma url_Parse_users: "url_Parse (''users/'' @ x) \<noteq> None"
proof -
  have "fst (Cut (''users/'' @ x) (CHR ''#'')) = ''users/'' @ fst (Cut x (CHR ''#''))"
    by (simp add: Cut_def)
  then show ?thesis
    using parse_users [of "fst (Cut x (CHR ''#''))"]
    by (auto simp: url_Parse_def Let_def split: option.splits sum.splits)
qed

lemma url_Parse_items_url: "url_Parse (items_url ownerType owner projectNumber) \<noteq> None"
  unfolding items_url_def using url_Parse_orgs url_Parse_users by (simp del: append.simps)

lemma addOptions_items_url: "addOptions (items_url ownerType owner projectNumber) opts \<noteq> None"
  using url_Parse_items_url [of ownerType owner projectNumber]
  by (auto simp: addOptions_def split: option.splits sum.splits)

lemma ListProjectItems_modelled: "ListProjectItems d req \<noteq> None"
  by (simp add: ListProjectItems_def Let_def addOptions_items_url
      split: sum.splits option.splits do_result.splits)

lemma ListProjectItems_reaches_Do:
  assumes "ListProjectItems d req = Some (res, tr)"
    and "tr \<noteq> [] \<or> (\<exists>t. res = Inr (ToolResultText t))"
  obtains owner ownerType projectNumber queryStr fieldIDs pagination url' where
    "RequiredParam_string req ''owner'' = Inr owner"
    "RequiredParam_string req ''owner_type'' = Inr ownerType"
    "RequiredInt req ''project_number'' = Inr projectNumber"
    "OptionalParam_string req ''query'' = Inr queryStr"
    "OptionalStringArrayParam req ''fields'' = Inr fieldIDs"
    "extractPaginationOptions req = Inr pagination"
    "getClient_err d = None"
    "addOptions (items_url ownerType owner projectNumber)
       (ListProjectItemsOptions
          \<lparr>paginationOptions = pagination,
           filterQueryOptions = \<lparr>Query = queryStr\<rparr>,
           fieldSelectionOptions =
             \<lparr>fieldSelectionOptions.Fields = Join fieldIDs '',''\<rparr>\<rparr>) = Some (Inr url')"
    "NewRequest_err d ''GET'' url' NoBody = None"
proof -
  note a = assms
  obtain owner where 1: "RequiredParam_string req ''owner'' = Inr owner"
    using a by (cases "RequiredParam_string req ''owner''") (auto simp: ListProjectItems_def)
  obtain ownerType where 2: "RequiredParam_string req ''owner_type'' = Inr ownerType"
    using a 1
    by (cases "RequiredParam_string req ''owner_type''") (auto simp: ListProjectItems_def)
  obtain projectNumber where 3: "RequiredInt req ''project_number'' = Inr projectNumber"
    using a 1 2
    by (cases "RequiredInt req ''project_number''") (auto simp: ListProjectItems_def)
  obtain queryStr where 4: "OptionalParam_string req ''query'' = Inr queryStr"
    using a 1 2 3
    by (cases "OptionalParam_string req ''query''") (auto simp: ListProjectItems_def)
  obtain fieldIDs where 5: "OptionalStringArrayParam req ''fields'' = Inr fieldIDs"
    using a 1 2 3 4
    by (cases "OptionalStringArrayParam req ''fields''") (auto simp: ListProjectItems_def)
  obtain pagination where 6: "extractPaginationOptions req = Inr pagination"
    using a 1 2 3 4 5
    by (cases "extractPaginationOptions req") (auto simp: ListProjectItems_def)
  have 7: "getClient_err d = None"
    using a 1 2 3 4 5 6
    by (cases "getClient_err d") (auto simp: ListProjectItems_def)
  let ?opts = "ListProjectItemsOptions
          \<lparr>paginationOptions = pagination,
           filterQueryOptions = \<lparr>Query = queryStr\<rparr>,
           fieldSelectionOptions =
             \<lparr>fieldSelectionOptions.Fields = Join fieldIDs '',''\<rparr>\<rparr>"
  obtain y where y: "addOptions (items_url ownerType owner projectNumber) ?opts = Some y"
    using addOptions_items_url [of ownerType owner projectNumber ?opts] by auto
  obtain url' where 8: "y = Inr url'"
    using a 1 2 3 4 5 6 7 y
    by (cases y) (auto simp: ListProjectItems_def Let_def)
  have 9: "NewRequest_err d ''GET'' url' NoBody = None"
    using a 1 2 3 4 5 6 7 y 8
    by (cases "NewRequest_err d ''GET'' url' NoBody") (auto simp: ListProjectItems_def Let_def)
  from 1 2 3 4 5 6 7 y [unfolded 8] 9 show thesis by (rule that)
qed

lemma ListProjectItems_after_request:
  assumes "RequiredParam_string req ''owner'' = Inr owner"
    "RequiredParam_string req ''owner_type'' = Inr ownerType"
    "RequiredInt req ''project_number'' = Inr projectNumber"
    "OptionalParam_string req ''query'' = Inr queryStr"
    "OptionalStringArrayParam req ''fields'' = Inr fieldIDs"
    "extractPaginationOptions req = Inr pagination"
    "getClient_err d = None"
    "addOptions (items_url ownerType owner projectNumber)
       (ListProjectItemsOptions
          \<lparr>paginationOptions = pagination,
           filterQueryOptions = \<lparr>Query = queryStr\<rparr>,
           fieldSelectionOptions =
             \<lparr>fieldSelectionOptions.Fields = Join fieldIDs '',''\<rparr>\<rparr>) = Some (Inr url')"
    "NewRequest_err d ''GET'' url' NoBody = None"
    "R = \<lparr>httpMethod = ''GET'', urlStr = url', body = NoBody\<rparr>"
  shows "ListProjectItems d req =
     Some ((case Do d R of
         DoError resp err \<Rightarrow> Inr (NewGitHubAPIErrorResponse ProjectListFailedError resp err)
       | DoOK resp projectItems \<Rightarrow>
           (case Marshal d
              (ItemsResponse
                 (map (\<lambda>i. if length (projectV2Item.Fields i) > 0
                            then i\<lparr>projectV2Item.Fields :=
                                   filterSpecialTypes projectV2ItemFieldValue_getDataType
                                     (projectV2Item.Fields i)\<rparr>
                            else i) projectItems)
                 (buildPageInfo resp)) of
              Inl err \<Rightarrow> Inl (''failed to marshal response: '' @ err)
            | Inr t \<Rightarrow> Inr (ToolResultText t))), [R])"
  using assms
  by (auto simp: ListProjectItems_def Let_def split: do_result.splits sum.splits)

section \<open>Properties of the update payload and of the handlers\<close>

lemma buildUpdateProjectItem_Inr_iff:
  "(\<exists>p. buildUpdateProjectItem (Some m) = Inr p) =
     ((\<exists>n. m ''id'' = Some (JNumber n)) \<and> m ''value'' \<noteq> None)"
  by (auto simp: buildUpdateProjectItem_def split: option.splits json.splits)

lemma UpdateProjectItem_request_validated:
  assumes "r \<in> set (snd (UpdateProjectItem d req))"
  shows "\<exists>kvs p. req ''updated_field'' = Some (JObject kvs) \<and>
           buildUpdateProjectItem (Some (map_of kvs)) = Inr p \<and>
           body r = UpdateProjectItemBody \<lparr>updateProjectItemPayload.Fields = [p]\<rparr>"
proof -
  from assms have "snd (UpdateProjectItem d req) \<noteq> [] \<or>
      (\<exists>t. fst (UpdateProjectItem d req) = Inr (ToolResultText t))" by auto
  then obtain owner ownerType projectNumber itemID kvs p where h:
    "RequiredParam_string req ''owner'' = Inr owner"
    "RequiredParam_string req ''owner_type'' = Inr ownerType"
    "RequiredInt req ''project_number'' = Inr projectNumber"
    "RequiredInt req ''item_id'' = Inr itemID"
    "req ''updated_field'' = Some (JObject kvs)"
    "buildUpdateProjectItem (Some (map_of kvs)) = Inr p"
    "getClient_err d = None"
    "NewRequest_err d ''PATCH'' (item_url ownerType owner projectNumber itemID)
       (UpdateProjectItemBody \<lparr>updateProjectItemPayload.Fields = [p]\<rparr>) = None"
    by (rule UpdateProjectItem_reaches_Do)
  note run = UpdateProjectItem_after_request [OF h refl]
  from run assms
  have "body r = UpdateProjectItemBody \<lparr>updateProjectItemPayload.Fields = [p]\<rparr>"
    by simp
  with h(5,6) show ?thesis by blast
qed

lemma AddProjectItem_request_type:
  assumes "r \<in> set (snd (AddProjectItem d req))"
  shows "(RequiredParam_string req ''item_type'' = Inr ''issue'' \<and>
            (\<exists>n. body r = NewProjectItemBody \<lparr>newProjectItem.ID = n, Type = ''Issue''\<rparr>)) \<or>
         (RequiredParam_string req ''item_type'' = Inr ''pull_request'' \<and>
            (\<exists>n. body r = NewProjectItemBody \<lparr>newProjectItem.ID = n, Type = ''PullRequest''\<rparr>))"
proof -
  from assms have "snd (AddProjectItem d req) \<noteq> [] \<or>
      (\<exists>t. fst (AddProjectItem d req) = Inr (ToolResultText t))" by auto
  then obtain owner ownerType projectNumber itemID itemType where h:
    "RequiredParam_string req ''owner'' = Inr owner"
    "RequiredParam_string req ''owner_type'' = Inr ownerType"
    "RequiredInt req ''project_number'' = Inr projectNumber"
    "RequiredInt req ''item_id'' = Inr itemID"
    "RequiredParam_string req ''item_type'' = Inr itemType"
    "itemType = ''issue'' \<or> itemType = ''pull_request''"
    "getClient_err d = None"
    "NewRequest_err d ''POST'' (items_url ownerType owner projectNumber)
       (NewProjectItemBody \<lparr>newProjectItem.ID = itemID, Type = toNewProjectType itemType\<rparr>) = None"
    by (rule AddProjectItem_reaches_Do)
  note run = AddProjectItem_after_request [OF h refl]
  from run assms
  have "body r = NewProjectItemBody
          \<lparr>newProjectItem.ID = itemID, Type = toNewProjectType itemType\<rparr>"
    by simp
  with h(5,6) show ?thesis by (auto simp: toNewProjectType_values)
qed

lemma UpdateProjectItem_invalid:
  assumes "RequiredParam_string req ''owner'' = Inr owner"
    and "RequiredParam_string req ''owner_type'' = Inr ownerType"
    and "RequiredInt req ''project_number'' = Inr projectNumber"
    and "RequiredInt req ''item_id'' = Inr itemID"
    and "req ''updated_field'' = Some (JObject kvs)"
    and "buildUpdateProjectItem (Some (map_of kvs)) = Inl err"
  shows "UpdateProjectItem d req = (Inr (ToolResultError err), [])"
  using assms by (simp add: UpdateProjectItem_def)



lemma UpdateProjectItem_valid:
  assumes "RequiredParam_string req ''owner'' = Inr owner"
    and "RequiredParam_string req ''owner_type'' = Inr ownerType"
    and "RequiredInt req ''project_number'' = Inr projectNumber"
    and "RequiredInt req ''item_id'' = Inr itemID"
    and "req ''updated_field'' = Some (JObject kvs)"
    and "buildUpdateProjectItem (Some (map_of kvs)) = Inr p"
    and "getClient_err d = None"
    and "NewRequest_err d ''PATCH'' (item_url ownerType owner projectNumber itemID)
           (UpdateProjectItemBody \<lparr>updateProjectItemPayload.Fields = [p]\<rparr>) = None"
  shows "snd (UpdateProjectItem d req) =
           [\<lparr>httpMethod = ''PATCH'', urlStr = item_url ownerType owner projectNumber itemID,
             body = UpdateProjectItemBody \<lparr>updateProjectItemPayload.Fields = [p]\<rparr>\<rparr>]"
  using assms
  by (simp add: UpdateProjectItem_def Let_def split: do_result.splits sum.splits)

lemma update_body_json:
  "request_body_json (UpdateProjectItemBody \<lparr>updateProjectItemPayload.Fields = [p]\<rparr>) =
     Some (JObject [(''fields'',
        JArray [JObject [(''id'', JNumber (of_int (updateProjectItem.ID p))),
                         (''value'', updateProjectItem.Value p)]])])"
  by (simp add: request_body_json_def updateProjectItemPayload_json_def updateProjectItem_json_def)

text \<open>
  C8. Every request \<open>UpdateProjectItem\<close> issues carries an update payload whose fields
  list is the one validated payload; with valid parameters and a working client the
  request is the PATCH of the item with that body; and the JSON form of the body is
  \<open>{"fields":[{"id": id, "value": value}]}\<close>.
\<close>

theorem UpdateProjectItem_singleton_batch:
  "(r \<in> set (snd (UpdateProjectItem d req)) \<longrightarrow>
      (\<exists>kvs' p'. req ''updated_field'' = Some (JObject kvs') \<and>
         buildUpdateProjectItem (Some (map_of kvs')) = Inr p' \<and>
         body r = UpdateProjectItemBody \<lparr>updateProjectItemPayload.Fields = [p']\<rparr>)) \<and>
   (RequiredParam_string req ''owner'' = Inr owner \<and>
    RequiredParam_string req ''owner_type'' = Inr ownerType \<and>
    RequiredInt req ''project_number'' = Inr projectNumber \<and>
    RequiredInt req ''item_id'' = Inr itemID \<and>
    req ''updated_field'' = Some (JObject kvs) \<and>
    buildUpdateProjectItem (Some (map_of kvs)) = Inr p \<and>
    getClient_err d = None \<and>
    NewRequest_err d ''PATCH'' (item_url ownerType owner projectNumber itemID)
      (UpdateProjectItemBody \<lparr>updateProjectItemPayload.Fields = [p]\<rparr>) = None \<longrightarrow>
      snd (UpdateProjectItem d req) =
        [\<lparr>httpMethod = ''PATCH'', urlStr = item_url ownerType owner projectNumber itemID,
          body = UpdateProjectItemBody \<lparr>updateProjectItemPayload.Fields = [p]\<rparr>\<rparr>]) \<and>
   request_body_json (UpdateProjectItemBody \<lparr>updateProjectItemPayload.Fields = [p]\<rparr>) =
     Some (JObject [(''fields'',
        JArray [JObject [(''id'', JNumber (of_int (updateProjectItem.ID p))),
                         (''value'', updateProjectItem.Value p)]])])"
proof (intro conjI impI)
  assume "r \<in> set (snd (UpdateProjectItem d req))"
  then show "\<exists>kvs' p'. req ''updated_field'' = Some (JObject kvs') \<and>
         buildUpdateProjectItem (Some (map_of kvs')) = Inr p' \<and>
         body r = UpdateProjectItemBody \<lparr>updateProjectItemPayload.Fields = [p']\<rparr>"
    by (rule UpdateProjectItem_request_validated)
next
  assume "RequiredParam_string req ''owner'' = Inr owner \<and>
    RequiredParam_string req ''owner_type'' = Inr ownerType \<and>
    RequiredInt req ''project_number'' = Inr projectNumber \<and>
    RequiredInt req ''item_id'' = Inr itemID \<and>
    req ''updated_field'' = Some (JObject kvs) \<and>
    buildUpdateProjectItem (Some (map_of kvs)) = Inr p \<and>
    getClient_err d = None \<and>
    NewRequest_err d ''PATCH'' (item_url ownerType owner projectNumber itemID)
      (UpdateProjectItemBody \<lparr>updateProjectItemPayload.Fields = [p]\<rparr>) = None"
  then show "snd (UpdateProjectItem d req) =
        [\<lparr>httpMethod = ''PATCH'', urlStr = item_url ownerType owner projectNumber itemID,
          body = UpdateProjectItemBody \<lparr>updateProjectItemPayload.Fields = [p]\<rparr>\<rparr>]"
    by (elim conjE) (rule UpdateProjectItem_valid; assumption)
next
  show "request_body_json (UpdateProjectItemBody \<lparr>updateProjectItemPayload.Fields = [p]\<rparr>) =
     Some (JObject [(''fields'',
        JArray [JObject [(''id'', JNumber (of_int (updateProjectItem.ID p))),
                         (''value'', updateProjectItem.Value p)]])])"
    by (rule update_body_json)
qed

theorem UpdateProjectItem_singleton_batch_witness:
  "snd (UpdateProjectItem (example_deps (DoOK (example_response 200 []) example_item) ''{}'')
          (update_request [(''id'', JNumber 123), (''value'', JString ''x'')])) =
     [\<lparr>httpMethod = ''PATCH'', urlStr = item_url ''org'' ''octo-org'' 7 42,
       body = UpdateProjectItemBody \<lparr>updateProjectItemPayload.Fields =
         [\<lparr>updateProjectItem.ID = 123, updateProjectItem.Value = JString ''x''\<rparr>]\<rparr>\<rparr>] \<and>
   item_url ''org'' ''octo-org'' 7 42 = ''orgs/octo-org/projectsV2/7/items/42''"
proof -
  let ?d = "example_deps (DoOK (example_response 200 []) example_item) ''{}''"
  let ?req = "update_request [(''id'', JNumber 123), (''value'', JString ''x'')]"
  let ?p = "\<lparr>updateProjectItem.ID = 123, updateProjectItem.Value = JString ''x''\<rparr>"
  have h: "RequiredParam_string ?req ''owner'' = Inr ''octo-org'' \<and>
    RequiredParam_string ?req ''owner_type'' = Inr ''org'' \<and>
    RequiredInt ?req ''project_number'' = Inr 7 \<and>
    RequiredInt ?req ''item_id'' = Inr 42 \<and>
    ?req ''updated_field'' = Some (JObject [(''id'', JNumber 123), (''value'', JString ''x'')]) \<and>
    buildUpdateProjectItem (Some (map_of [(''id'', JNumber 123), (''value'', JString ''x'')])) =
      Inr ?p \<and>
    getClient_err ?d = None \<and>
    NewRequest_err ?d ''PATCH'' (item_url ''org'' ''octo-org'' 7 42)
      (UpdateProjectItemBody \<lparr>updateProjectItemPayload.Fields = [?p]\<rparr>) = None"
    by (simp add: update_request_params buildUpdateProjectItem_def example_deps_def)
  have "snd (UpdateProjectItem ?d ?req) =
     [\<lparr>httpMethod = ''PATCH'', urlStr = item_url ''org'' ''octo-org'' 7 42,
       body = UpdateProjectItemBody \<lparr>updateProjectItemPayload.Fields = [?p]\<rparr>\<rparr>]"
    using UpdateProjectItem_singleton_batch [where d = ?d and req = ?req,
        THEN conjunct2, THEN conjunct1, THEN mp, OF h] .
  moreover have "item_url ''org'' ''octo-org'' 7 42 = ''orgs/octo-org/projectsV2/7/items/42''"
    by (simp add: item_url_def Itoa_7 Itoa_42)
  ultimately show ?thesis by (intro conjI)
qed

lemma UpdateProjectItem_example:
  "UpdateProjectItem (example_deps (DoOK (example_response status text) example_item) t)
     (update_request [(''id'', JNumber 123), (''value'', JString ''x'')]) =
   (if status \<noteq> 200 then Inr (ToolResultError (''failed to update a project item: '' @ text))
    else Inr (ToolResultText t),
    [\<lparr>httpMethod = ''PATCH'', urlStr = ''orgs/octo-org/projectsV2/7/items/42'',
      body = UpdateProjectItemBody \<lparr>updateProjectItemPayload.Fields =
        [\<lparr>updateProjectItem.ID = 123, updateProjectItem.Value = JString ''x''\<rparr>]\<rparr>\<rparr>])"
  by (simp add: UpdateProjectItem_def update_request_params example_deps_def example_response_def
      item_url_def Itoa_7 Itoa_42 buildUpdateProjectItem_def StatusOK_def
      ProjectUpdateFailedError_def)

lemma UpdateProjectItem_invalid_example:
  "UpdateProjectItem (example_deps (DoOK (example_response 200 text) example_item) t)
     (update_request [(''id'', JNumber 123)]) =
   (Inr (ToolResultError ''updated_field.value is required''), [])"
  by (simp add: UpdateProjectItem_def update_request_params buildUpdateProjectItem_def)

lemma AddProjectItem_valid:
  assumes "RequiredParam_string req ''owner'' = Inr owner"
    and "RequiredParam_string req ''owner_type'' = Inr ownerType"
    and "RequiredInt req ''project_number'' = Inr projectNumber"
    and "RequiredInt req ''item_id'' = Inr itemID"
    and "RequiredParam_string req ''item_type'' = Inr itemType"
    and "itemType = ''issue'' \<or> itemType = ''pull_request''"
    and "getClient_err d = None"
    and "NewRequest_err d ''POST'' (items_url ownerType owner projectNumber)
           (NewProjectItemBody \<lparr>newProjectItem.ID = itemID, Type = toNewProjectType itemType\<rparr>) = None"
  shows "snd (AddProjectItem d req) =
           [\<lparr>httpMethod = ''POST'', urlStr = items_url ownerType owner projectNumber,
             body = NewProjectItemBody
               \<lparr>newProjectItem.ID = itemID, Type = toNewProjectType itemType\<rparr>\<rparr>]"
  using assms
  by (auto simp: AddProjectItem_def Let_def split: do_result.splits sum.splits)

lemma AddProjectItem_rejected:
  assumes "RequiredParam_string req ''owner'' = Inr owner"
    and "RequiredParam_string req ''owner_type'' = Inr ownerType"
    and "RequiredInt req ''project_number'' = Inr projectNumber"
    and "RequiredInt req ''item_id'' = Inr itemID"
    and "RequiredParam_string req ''item_type'' = Inr itemType"
    and "itemType \<noteq> ''issue''" and "itemType \<noteq> ''pull_request''"
  shows "AddProjectItem d req = (Inr (ToolResultError item_type_error), [])"
  using assms by (simp add: AddProjectItem_def)

text \<open>
  C9. Every request \<open>AddProjectItem\<close> issues has type \<open>Issue\<close> for the item type
  \<open>issue\<close> and \<open>PullRequest\<close> for \<open>pull_request\<close>, also in the JSON form of the body;
  with valid parameters and a working client that request is issued; any other item
  type is answered with the parameter error and no request is issued.
\<close>

theorem AddProjectItem_item_type:
  "(r \<in> set (snd (AddProjectItem d req)) \<longrightarrow>
      (RequiredParam_string req ''item_type'' = Inr ''issue'' \<and>
         (\<exists>n. body r = NewProjectItemBody \<lparr>newProjectItem.ID = n, Type = ''Issue''\<rparr>)) \<or>
      (RequiredParam_string req ''item_type'' = Inr ''pull_request'' \<and>
         (\<exists>n. body r = NewProjectItemBody \<lparr>newProjectItem.ID = n, Type = ''PullRequest''\<rparr>))) \<and>
   (RequiredParam_string req ''owner'' = Inr owner \<and>
    RequiredParam_string req ''owner_type'' = Inr ownerType \<and>
    RequiredInt req ''project_number'' = Inr projectNumber \<and>
    RequiredInt req ''item_id'' = Inr itemID \<and>
    RequiredParam_string req ''item_type'' = Inr ''issue'' \<and>
    getClient_err d = None \<and>
    NewRequest_err d ''POST'' (items_url ownerType owner projectNumber)
      (NewProjectItemBody \<lparr>newProjectItem.ID = itemID, Type = ''Issue''\<rparr>) = None \<longrightarrow>
      snd (AddProjectItem d req) =
        [\<lparr>httpMethod = ''POST'', urlStr = items_url ownerType owner projectNumber,
          body = NewProjectItemBody \<lparr>newProjectItem.ID = itemID, Type = ''Issue''\<rparr>\<rparr>]) \<and>
   (RequiredParam_string req ''owner'' = Inr owner \<and>
    RequiredParam_string req ''owner_type'' = Inr ownerType \<and>
    RequiredInt req ''project_number'' = Inr projectNumber \<and>
    RequiredInt req ''item_id'' = Inr itemID \<and>
    RequiredParam_string req ''item_type'' = Inr ''pull_request'' \<and>
    getClient_err d = None \<and>
    NewRequest_err d ''POST'' (items_url ownerType owner projectNumber)
      (NewProjectItemBody \<lparr>newProjectItem.ID = itemID, Type = ''PullRequest''\<rparr>) = None \<longrightarrow>
      snd (AddProjectItem d req) =
        [\<lparr>httpMethod = ''POST'', urlStr = items_url ownerType owner projectNumber,
          body = NewProjectItemBody \<lparr>newProjectItem.ID = itemID, Type = ''PullRequest''\<rparr>\<rparr>]) \<and>
   (RequiredParam_string req ''owner'' = Inr owner \<and>
    RequiredParam_string req ''owner_type'' = Inr ownerType \<and>
    RequiredInt req ''project_number'' = Inr projectNumber \<and>
    RequiredInt req ''item_id'' = Inr itemID \<and>
    RequiredParam_string req ''item_type'' = Inr itemType \<and>
    itemType \<noteq> ''issue'' \<and> itemType \<noteq> ''pull_request'' \<longrightarrow>
      AddProjectItem d req = (Inr (ToolResultError item_type_error), [])) \<and>
   json_member (newProjectItem_json \<lparr>newProjectItem.ID = n, Type = ''Issue''\<rparr>) ''type''
     = Some (JString ''Issue'') \<and>
   json_member (newProjectItem_json \<lparr>newProjectItem.ID = n, Type = ''PullRequest''\<rparr>) ''type''
     = Some (JString ''PullRequest'')"
proof (intro conjI impI)
  assume "r \<in> set (snd (AddProjectItem d req))"
  then show "(RequiredParam_string req ''item_type'' = Inr ''issue'' \<and>
         (\<exists>n. body r = NewProjectItemBody \<lparr>newProjectItem.ID = n, Type = ''Issue''\<rparr>)) \<or>
      (RequiredParam_string req ''item_type'' = Inr ''pull_request'' \<and>
         (\<exists>n. body r = NewProjectItemBody \<lparr>newProjectItem.ID = n, Type = ''PullRequest''\<rparr>))"
    by (rule AddProjectItem_request_type)
next
  assume h: "RequiredParam_string req ''owner'' = Inr owner \<and>
    RequiredParam_string req ''owner_type'' = Inr ownerType \<and>
    RequiredInt req ''project_number'' = Inr projectNumber \<and>
    RequiredInt req ''item_id'' = Inr itemID \<and>
    RequiredParam_string req ''item_type'' = Inr ''issue'' \<and>
    getClient_err d = None \<and>
    NewRequest_err d ''POST'' (items_url ownerType owner projectNumber)
      (NewProjectItemBody \<lparr>newProjectItem.ID = itemID, Type = ''Issue''\<rparr>) = None"
  show "snd (AddProjectItem d req) =
        [\<lparr>httpMethod = ''POST'', urlStr = items_url ownerType owner projectNumber,
          body = NewProjectItemBody \<lparr>newProjectItem.ID = itemID, Type = ''Issue''\<rparr>\<rparr>]"
    using h AddProjectItem_valid [of req owner ownerType projectNumber itemID "''issue''" d]
    by (simp add: toNewProjectType_values)
next
  assume h: "RequiredParam_string req ''owner'' = Inr owner \<and>
    RequiredParam_string req ''owner_type'' = Inr ownerType \<and>
    RequiredInt req ''project_number'' = Inr projectNumber \<and>
    RequiredInt req ''item_id'' = Inr itemID \<and>
    RequiredParam_string req ''item_type'' = Inr ''pull_request'' \<and>
    getClient_err d = None \<and>
    NewRequest_err d ''POST'' (items_url ownerType owner projectNumber)
      (NewProjectItemBody \<lparr>newProjectItem.ID = itemID, Type = ''PullRequest''\<rparr>) = None"
  show "snd (AddProjectItem d req) =
        [\<lparr>httpMethod = ''POST'', urlStr = items_url ownerType owner projectNumber,
          body = NewProjectItemBody \<lparr>newProjectItem.ID = itemID, Type = ''PullRequest''\<rparr>\<rparr>]"
    using h AddProjectItem_valid [of req owner ownerType projectNumber itemID "''pull_request''" d]
    by (simp add: toNewProjectType_values)
next
  assume "RequiredParam_string req ''owner'' = Inr owner \<and>
    RequiredParam_string req ''owner_type'' = Inr ownerType \<and>
    RequiredInt req ''project_number'' = Inr projectNumber \<and>
    RequiredInt req ''item_id'' = Inr itemID \<and>
    RequiredParam_string req ''item_type'' = Inr itemType \<and>
    itemType \<noteq> ''issue'' \<and> itemType \<noteq> ''pull_request''"
  then show "AddProjectItem d req = (Inr (ToolResultError item_type_error), [])"
    by (elim conjE) (rule AddProjectItem_rejected; assumption)
next
  show "json_member (newProjectItem_json \<lparr>newProjectItem.ID = n, Type = ''Issue''\<rparr>) ''type''
     = Some (JString ''Issue'')"
    by (simp add: json_member_def newProjectItem_json_def)
next
  show "json_member (newProjectItem_json \<lparr>newProjectItem.ID = n, Type = ''PullRequest''\<rparr>) ''type''
     = Some (JString ''PullRequest'')"
    by (simp add: json_member_def newProjectItem_json_def)
qed

theorem AddProjectItem_item_type_witness:
  "snd (AddProjectItem (example_deps (DoOK (example_response 201 []) example_item) ''{}'')
          (add_request ''issue'')) =
     [\<lparr>httpMethod = ''POST'', urlStr = items_url ''org'' ''octo-org'' 7,
       body = NewProjectItemBody \<lparr>newProjectItem.ID = 42, Type = ''Issue''\<rparr>\<rparr>] \<and>
   snd (AddProjectItem (example_deps (DoOK (example_response 201 []) example_item) ''{}'')
          (add_request ''pull_request'')) =
     [\<lparr>httpMethod = ''POST'', urlStr = items_url ''org'' ''octo-org'' 7,
       body = NewProjectItemBody \<lparr>newProjectItem.ID = 42, Type = ''PullRequest''\<rparr>\<rparr>] \<and>
   AddProjectItem (example_deps (DoOK (example_response 201 []) example_item) ''{}'')
     (add_request ''draft_issue'') = (Inr (ToolResultError item_type_error), [])"
proof -
  let ?d = "example_deps (DoOK (example_response 201 []) example_item) ''{}''"
  have h1: "RequiredParam_string (add_request ''issue'') ''owner'' = Inr ''octo-org'' \<and>
    RequiredParam_string (add_request ''issue'') ''owner_type'' = Inr ''org'' \<and>
    RequiredInt (add_request ''issue'') ''project_number'' = Inr 7 \<and>
    RequiredInt (add_request ''issue'') ''item_id'' = Inr 42 \<and>
    RequiredParam_string (add_request ''issue'') ''item_type'' = Inr ''issue'' \<and>
    getClient_err ?d = None \<and>
    NewRequest_err ?d ''POST'' (items_url ''org'' ''octo-org'' 7)
      (NewProjectItemBody \<lparr>newProjectItem.ID = 42, Type = ''Issue''\<rparr>) = None"
    by (simp add: add_request_params example_deps_def)
  have h2: "RequiredParam_string (add_request ''pull_request'') ''owner'' = Inr ''octo-org'' \<and>
    RequiredParam_string (add_request ''pull_request'') ''owner_type'' = Inr ''org'' \<and>
    RequiredInt (add_request ''pull_request'') ''project_number'' = Inr 7 \<and>
    RequiredInt (add_request ''pull_request'') ''item_id'' = Inr 42 \<and>
    RequiredParam_string (add_request ''pull_request'') ''item_type'' = Inr ''pull_request'' \<and>
    getClient_err ?d = None \<and>
    NewRequest_err ?d ''POST'' (items_url ''org'' ''octo-org'' 7)
      (NewProjectItemBody \<lparr>newProjectItem.ID = 42, Type = ''PullRequest''\<rparr>) = None"
    by (simp add: add_request_params example_deps_def)
  have h3: "RequiredParam_string (add_request ''draft_issue'') ''owner'' = Inr ''octo-org'' \<and>
    RequiredParam_string (add_request ''draft_issue'') ''owner_type'' = Inr ''org'' \<and>
    RequiredInt (add_request ''draft_issue'') ''project_number'' = Inr 7 \<and>
    RequiredInt (add_request ''draft_issue'') ''item_id'' = Inr 42 \<and>
    RequiredParam_string (add_request ''draft_issue'') ''item_type'' = Inr ''draft_issue'' \<and>
    ''draft_issue'' \<noteq> ''issue'' \<and> ''draft_issue'' \<noteq> ''pull_request''"
    by (simp add: add_request_params)
  note t = AddProjectItem_item_type
  have "snd (AddProjectItem ?d (add_request ''issue'')) =
     [\<lparr>httpMethod = ''POST'', urlStr = items_url ''org'' ''octo-org'' 7,
       body = NewProjectItemBody \<lparr>newProjectItem.ID = 42, Type = ''Issue''\<rparr>\<rparr>]"
    using t [where d = ?d and req = "add_request ''issue''",
        THEN conjunct2, THEN conjunct1, THEN mp, OF h1] .
  moreover have "snd (AddProjectItem ?d (add_request ''pull_request'')) =
     [\<lparr>httpMethod = ''POST'', urlStr = items_url ''org'' ''octo-org'' 7,
       body = NewProjectItemBody \<lparr>newProjectItem.ID = 42, Type = ''PullRequest''\<rparr>\<rparr>]"
    using t [where d = ?d and req = "add_request ''pull_request''",
        THEN conjunct2, THEN conjunct2, THEN conjunct1, THEN mp, OF h2] .
  moreover have "AddProjectItem ?d (add_request ''draft_issue'') =
      (Inr (ToolResultError item_type_error), [])"
    using t [where d = ?d and req = "add_request ''draft_issue''",
        THEN conjunct2, THEN conjunct2, THEN conjunct2, THEN conjunct1, THEN mp, OF h3] .
  ultimately show ?thesis by (intro conjI)
qed

lemma AddProjectItem_example:
  "AddProjectItem (example_deps (DoOK (example_response status text) example_item) t)
     (add_request ''issue'') =
   (if status \<noteq> 201 then Inr (ToolResultError (''failed to add a project item: '' @ text))
    else Inr (ToolResultText t),
    [\<lparr>httpMethod = ''POST'', urlStr = ''orgs/octo-org/projectsV2/7/items'',
      body = NewProjectItemBody \<lparr>newProjectItem.ID = 42, Type = ''Issue''\<rparr>\<rparr>])"
  by (simp add: AddProjectItem_def add_request_params example_deps_def example_response_def
      items_url_def Itoa_7 toNewProjectType_values StatusCreated_def ProjectAddFailedError_def)

lemma AddProjectItem_example_pr:
  "snd (AddProjectItem (example_deps (DoOK (example_response 201 text) example_item) t)
     (add_request ''pull_request'')) =
    [\<lparr>httpMethod = ''POST'', urlStr = ''orgs/octo-org/projectsV2/7/items'',
      body = NewProjectItemBody \<lparr>newProjectItem.ID = 42, Type = ''PullRequest''\<rparr>\<rparr>]"
  by (simp add: AddProjectItem_def add_request_params example_deps_def example_response_def
      items_url_def Itoa_7 toNewProjectType_values StatusCreated_def)

lemma DeleteProjectItem_example:
  "DeleteProjectItem (example_deps (DoOK (example_response status text) ()) t) delete_request =
   (if status \<noteq> 204 then Inr (ToolResultError (''failed to delete a project item: '' @ text))
    else Inr (ToolResultText ''project item successfully deleted''),
    [\<lparr>httpMethod = ''DELETE'', urlStr = ''orgs/octo-org/projectsV2/7/items/42'', body = NoBody\<rparr>])"
  by (simp add: DeleteProjectItem_def delete_request_params example_deps_def example_response_def
      item_url_def Itoa_7 Itoa_42 StatusNoContent_def ProjectDeleteFailedError_def)

section \<open>Status checks\<close>

lemma AddProjectItem_status:
  assumes "snd (AddProjectItem d req) = [r]" "Do d r = DoOK resp v" "StatusCode resp \<noteq> 201"
  shows "fst (AddProjectItem d req) =
           (case Body resp of
              Inl err \<Rightarrow> Inl (''failed to read response body: '' @ err)
            | Inr b \<Rightarrow> Inr (ToolResultError (''failed to add a project item: '' @ b)))"
proof -
  from assms(1) have "snd (AddProjectItem d req) \<noteq> [] \<or>
      (\<exists>t. fst (AddProjectItem d req) = Inr (ToolResultText t))" by simp
  then obtain owner ownerType projectNumber itemID itemType where h:
    "RequiredParam_string req ''owner'' = Inr owner"
    "RequiredParam_string req ''owner_type'' = Inr ownerType"
    "RequiredInt req ''project_number'' = Inr projectNumber"
    "RequiredInt req ''item_id'' = Inr itemID"
    "RequiredParam_string req ''item_type'' = Inr itemType"
    "itemType = ''issue'' \<or> itemType = ''pull_request''"
    "getClient_err d = None"
    "NewRequest_err d ''POST'' (items_url ownerType owner projectNumber)
       (NewProjectItemBody \<lparr>newProjectItem.ID = itemID, Type = toNewProjectType itemType\<rparr>) = None"
    by (rule AddProjectItem_reaches_Do)
  note run = AddProjectItem_after_request [OF h refl]
  from run assms(1) have "r = \<lparr>httpMethod = ''POST'', urlStr = items_url ownerType owner projectNumber,
          body = NewProjectItemBody
            \<lparr>newProjectItem.ID = itemID, Type = toNewProjectType itemType\<rparr>\<rparr>"
    by simp
  with run assms(2,3) show ?thesis
    by (simp add: StatusCreated_def ProjectAddFailedError_def split: sum.splits)
qed

lemma AddProjectItem_success:
  assumes "fst (AddProjectItem d req) = Inr (ToolResultText t)"
  shows "\<exists>r resp v. snd (AddProjectItem d req) = [r] \<and> Do d r = DoOK resp v \<and>
           StatusCode resp = 201"
proof -
  from assms have "snd (AddProjectItem d req) \<noteq> [] \<or>
      (\<exists>t. fst (AddProjectItem d req) = Inr (ToolResultText t))" by blast
  then obtain owner ownerType projectNumber itemID itemType where h:
    "RequiredParam_string req ''owner'' = Inr owner"
    "RequiredParam_string req ''owner_type'' = Inr ownerType"
    "RequiredInt req ''project_number'' = Inr projectNumber"
    "RequiredInt req ''item_id'' = Inr itemID"
    "RequiredParam_string req ''item_type'' = Inr itemType"
    "itemType = ''issue'' \<or> itemType = ''pull_request''"
    "getClient_err d = None"
    "NewRequest_err d ''POST'' (items_url ownerType owner projectNumber)
       (NewProjectItemBody \<lparr>newProjectItem.ID = itemID, Type = toNewProjectType itemType\<rparr>) = None"
    by (rule AddProjectItem_reaches_Do)
  note run = AddProjectItem_after_request [OF h refl]
  from run assms show ?thesis
    by (auto simp: StatusCreated_def NewGitHubAPIErrorResponse_def
        split: do_result.splits sum.splits if_splits)
qed

lemma UpdateProjectItem_status:
  assumes "snd (UpdateProjectItem d req) = [r]" "Do d r = DoOK resp v" "StatusCode resp \<noteq> 200"
  shows "fst (UpdateProjectItem d req) =
           (case Body resp of
              Inl err \<Rightarrow> Inl (''failed to read response body: '' @ err)
            | Inr b \<Rightarrow> Inr (ToolResultError (''failed to update a project item: '' @ b)))"
proof -
  from assms(1) have "snd (UpdateProjectItem d req) \<noteq> [] \<or>
      (\<exists>t. fst (UpdateProjectItem d req) = Inr (ToolResultText t))" by simp
  then obtain owner ownerType projectNumber itemID kvs p where h:
    "RequiredParam_string req ''owner'' = Inr owner"
    "RequiredParam_string req ''owner_type'' = Inr ownerType"
    "RequiredInt req ''project_number'' = Inr projectNumber"
    "RequiredInt req ''item_id'' = Inr itemID"
    "req ''updated_field'' = Some (JObject kvs)"
    "buildUpdateProjectItem (Some (map_of kvs)) = Inr p"
    "getClient_err d = None"
    "NewRequest_err d ''PATCH'' (item_url ownerType owner projectNumber itemID)
       (UpdateProjectItemBody \<lparr>updateProjectItemPayload.Fields = [p]\<rparr>) = None"
    by (rule UpdateProjectItem_reaches_Do)
  note run = UpdateProjectItem_after_request [OF h refl]
  from run assms(1)
  have "r = \<lparr>httpMethod = ''PATCH'', urlStr = item_url ownerType owner projectNumber itemID,
          body = UpdateProjectItemBody \<lparr>updateProjectItemPayload.Fields = [p]\<rparr>\<rparr>"
    by simp
  with run assms(2,3) show ?thesis
    by (simp add: StatusOK_def ProjectUpdateFailedError_def split: sum.splits)
qed

lemma UpdateProjectItem_success:
  assumes "fst (UpdateProjectItem d req) = Inr (ToolResultText t)"
  shows "\<exists>r resp v. snd (UpdateProjectItem d req) = [r] \<and> Do d r = DoOK resp v \<and>
           StatusCode resp = 200"
proof -
  from assms have "snd (UpdateProjectItem d req) \<noteq> [] \<or>
      (\<exists>t. fst (UpdateProjectItem d req) = Inr (ToolResultText t))" by blast
  then obtain owner ownerType projectNumber itemID kvs p where h:
    "RequiredParam_string req ''owner'' = Inr owner"
    "RequiredParam_string req ''owner_type'' = Inr ownerType"
    "RequiredInt req ''project_number'' = Inr projectNumber"
    "RequiredInt req ''item_id'' = Inr itemID"
    "req ''updated_field'' = Some (JObject kvs)"
    "buildUpdateProjectItem (Some (map_of kvs)) = Inr p"
    "getClient_err d = None"
    "NewRequest_err d ''PATCH'' (item_url ownerType owner projectNumber itemID)
       (UpdateProjectItemBody \<lparr>updateProjectItemPayload.Fields = [p]\<rparr>) = None"
    by (rule UpdateProjectItem_reaches_Do)
  note run = UpdateProjectItem_after_request [OF h refl]
  from run assms show ?thesis
    by (auto simp: StatusOK_def NewGitHubAPIErrorResponse_def
        split: do_result.splits sum.splits if_splits)
qed

lemma DeleteProjectItem_status:
  assumes "snd (DeleteProjectItem d req) = [r]" "Do d r = DoOK resp v" "StatusCode resp \<noteq> 204"
  shows "fst (DeleteProjectItem d req) =
           (case Body resp of
              Inl err \<Rightarrow> Inl (''failed to read response body: '' @ err)
            | Inr b \<Rightarrow> Inr (ToolResultError (''failed to delete a project item: '' @ b)))"
proof -
  from assms(1) have "snd (DeleteProjectItem d req) \<noteq> [] \<or>
      (\<exists>t. fst (DeleteProjectItem d req) = Inr (ToolResultText t))" by simp
  then obtain owner ownerType projectNumber itemID where h:
    "RequiredParam_string req ''owner'' = Inr owner"
    "RequiredParam_string req ''owner_type'' = Inr ownerType"
    "RequiredInt req ''project_number'' = Inr projectNumber"
    "RequiredInt req ''item_id'' = Inr itemID"
    "getClient_err d = None"
    "NewRequest_err d ''DELETE'' (item_url ownerType owner projectNumber itemID) NoBody = None"
    by (rule DeleteProjectItem_reaches_Do)
  note run = DeleteProjectItem_after_request [OF h refl]
  from run assms(1)
  have "r = \<lparr>httpMethod = ''DELETE'', urlStr = item_url ownerType owner projectNumber itemID,
          body = NoBody\<rparr>"
    by simp
  with run assms(2,3) show ?thesis
    by (simp add: StatusNoContent_def ProjectDeleteFailedError_def split: sum.splits)
qed

lemma DeleteProjectItem_success:
  assumes "fst (DeleteProjectItem d req) = Inr (ToolResultText t)"
  shows "\<exists>r resp v. snd (DeleteProjectItem d req) = [r] \<and> Do d r = DoOK resp v \<and>
           StatusCode resp = 204"
proof -
  from assms have "snd (DeleteProjectItem d req) \<noteq> [] \<or>
      (\<exists>t. fst (DeleteProjectItem d req) = Inr (ToolResultText t))" by blast
  then obtain owner ownerType projectNumber itemID where h:
    "RequiredParam_string req ''owner'' = Inr owner"
    "RequiredParam_string req ''owner_type'' = Inr ownerType"
    "RequiredInt req ''project_number'' = Inr projectNumber"
    "RequiredInt req ''item_id'' = Inr itemID"
    "getClient_err d = None"
    "NewRequest_err d ''DELETE'' (item_url ownerType owner projectNumber itemID) NoBody = None"
    by (rule DeleteProjectItem_reaches_Do)
  note run = DeleteProjectItem_after_request [OF h refl]
  from run assms show ?thesis
    by (auto simp: StatusNoContent_def NewGitHubAPIErrorResponse_def
        split: do_result.splits sum.splits if_splits)
qed

lemma ListProjectItems_no_status_check:
  assumes "ListProjectItems d req = Some (res, [r])" "Do d r = DoOK resp items"
  shows "res =
           (case Marshal d
              (ItemsResponse
                 (map (\<lambda>i. if length (projectV2Item.Fields i) > 0
                            then i\<lparr>projectV2Item.Fields :=
                                   filterSpecialTypes projectV2ItemFieldValue_getDataType
                                     (projectV2Item.Fields i)\<rparr>
                            else i) items)
                 (buildPageInfo resp)) of
              Inl err \<Rightarrow> Inl (''failed to marshal response: '' @ err)
            | Inr t \<Rightarrow> Inr (ToolResultText t))"
proof -
  have "[r] \<noteq> [] \<or> (\<exists>t. res = Inr (ToolResultText t))" by simp
  with assms(1) obtain owner ownerType projectNumber queryStr fieldIDs pagination url' where h:
    "RequiredParam_string req ''owner'' = Inr owner"
    "RequiredParam_string req ''owner_type'' = Inr ownerType"
    "RequiredInt req ''project_number'' = Inr projectNumber"
    "OptionalParam_string req ''query'' = Inr queryStr"
    "OptionalStringArrayParam req ''fields'' = Inr fieldIDs"
    "extractPaginationOptions req = Inr pagination"
    "getClient_err d = None"
    "addOptions (items_url ownerType owner projectNumber)
       (ListProjectItemsOptions
          \<lparr>paginationOptions = pagination,
           filterQueryOptions = \<lparr>Query = queryStr\<rparr>,
           fieldSelectionOptions =
             \<lparr>fieldSelectionOptions.Fields = Join fieldIDs '',''\<rparr>\<rparr>) = Some (Inr url')"
    "NewRequest_err d ''GET'' url' NoBody = None"
    by (rule ListProjectItems_reaches_Do)
  note run = ListProjectItems_after_request [OF h refl]
  from run assms(1) have "r = \<lparr>httpMethod = ''GET'', urlStr = url', body = NoBody\<rparr>"
    by simp
  with run assms show ?thesis by simp
qed

lemma ListProjectItems_example:
  "ListProjectItems (example_deps (DoOK (example_response 204 []) []) ''{}'') list_request =
     Some (Inr (ToolResultText ''{}''),
       [\<lparr>httpMethod = ''GET'', urlStr = ''orgs/octo-org/projectsV2/7/items?per_page=50'',
         body = NoBody\<rparr>])"
  by code_simp



lemma ListProjectItems_example_500:
  "ListProjectItems (example_deps (DoOK (example_response 500 ''boom'') []) ''{}'') list_request =
     Some (Inr (ToolResultText ''{}''),
       [\<lparr>httpMethod = ''GET'', urlStr = ''orgs/octo-org/projectsV2/7/items?per_page=50'',
         body = NoBody\<rparr>])"
  by code_simp


section \<open>The options encoder replaces the query\<close>

lemma Cut_notin: "sep \<notin> set s \<Longrightarrow> Cut s sep = (s, [])"
  by (induction s) (auto simp: Cut_def)

lemma Cut_append: "sep \<notin> set p \<Longrightarrow> Cut (p @ sep # q) sep = (p, q)"
  by (induction p) (auto simp: Cut_def)

lemma getScheme_loop_no_colon:
  "CHR '':'' \<notin> set cs \<Longrightarrow> getScheme_loop raw seen cs = Inr ([], raw)"
  by (induction cs arbitrary: seen) auto

lemma getScheme_loop_query:
  "CHR '':'' \<notin> set cs \<Longrightarrow> getScheme_loop raw seen (cs @ CHR ''?'' # q) = Inr ([], raw)"
  by (induction cs arbitrary: seen) auto

lemma unescape_no_percent: "CHR ''%'' \<notin> set s \<Longrightarrow> unescape s = Inr s"
  by (induction s rule: unescape.induct) auto

lemma escape_unchanged:
  "\<forall>c \<in> set s. \<not> shouldEscape c mode \<Longrightarrow> escape s mode = s"
  by (induction s) (simp_all add: escape_def escape_byte_def)

lemma plain_char:
  assumes "is_alnum c \<or> c \<in> set ''-_.~/''"
  shows "\<not> shouldEscape c encodePath" "c \<noteq> CHR '':''" "c \<noteq> CHR ''?''" "c \<noteq> CHR ''#''"
    "c \<noteq> CHR ''%''" "c \<noteq> CHR ''*''" "\<not> ((of_char c :: nat) < 32 \<or> (of_char c :: nat) = 127)"
  using assms by (auto simp: shouldEscape_def is_alnum_def)


lemma plain_no_CTL:
  assumes "\<forall>c \<in> set p. is_alnum c \<or> c \<in> set ''-_.~/''"
  shows "\<not> stringContainsCTLByte p"
  using assms plain_char(7) by (auto simp: stringContainsCTLByte_def list_ex_iff)

lemma stringContainsCTLByte_append:
  "stringContainsCTLByte (a @ b) = (stringContainsCTLByte a \<or> stringContainsCTLByte b)"
  by (auto simp: stringContainsCTLByte_def list_ex_iff)

lemma stringContainsCTLByte_query: "\<not> stringContainsCTLByte ''?''"
  by (simp add: stringContainsCTLByte_def)

lemma not_force:
  assumes "CHR ''?'' \<notin> set p" "q \<noteq> []"
  shows "\<not> (last (p @ CHR ''?'' # q) = CHR ''?'' \<and> count_list (p @ CHR ''?'' # q) (CHR ''?'') = 1)"
proof
  assume a: "last (p @ CHR ''?'' # q) = CHR ''?'' \<and> count_list (p @ CHR ''?'' # q) (CHR ''?'') = 1"
  with assms(2) have "last q = CHR ''?''" by simp
  with assms(2) have "CHR ''?'' \<in> set q" using last_in_set by metis
  then have "count_list q (CHR ''?'') > 0" by (induction q) auto
  with a show False by simp
qed


lemma plain_set:
  assumes "\<forall>c \<in> set p. is_alnum c \<or> c \<in> set ''-_.~/''"
  shows "CHR '':'' \<notin> set p" "CHR ''?'' \<notin> set p" "CHR ''%'' \<notin> set p" "CHR ''*'' \<notin> set p"
    "CHR ''#'' \<notin> set p"
proof -
  have "c \<noteq> CHR '':'' \<and> c \<noteq> CHR ''?'' \<and> c \<noteq> CHR ''%'' \<and> c \<noteq> CHR ''*'' \<and> c \<noteq> CHR ''#''"
    if "c \<in> set p" for c
  proof -
    from assms that have "is_alnum c \<or> c \<in> set ''-_.~/''" by (rule bspec)
    then show ?thesis by (intro conjI plain_char)
  qed
  then show "CHR '':'' \<notin> set p" "CHR ''?'' \<notin> set p" "CHR ''%'' \<notin> set p" "CHR ''*'' \<notin> set p"
    "CHR ''#'' \<notin> set p"
    by blast+
qed

lemma plain_escape:
  assumes "\<forall>c \<in> set p. is_alnum c \<or> c \<in> set ''-_.~/''"
  shows "escape p encodePath = p"
proof (rule escape_unchanged, rule ballI)
  fix c assume "c \<in> set p"
  with assms have "is_alnum c \<or> c \<in> set ''-_.~/''" by (rule bspec)
  then show "\<not> shouldEscape c encodePath" by (rule plain_char)
qed

lemma parse_plain:
  assumes plain: "\<forall>c \<in> set p. is_alnum c \<or> c \<in> set ''-_.~/''"
    and auth: "\<not> HasPrefix p ''//''"
  shows "parse p = Some (Inr \<lparr>Path = p, RawPath = [], ForceQuery = False, RawQuery = [],
            Fragment = [], RawFragment = []\<rparr>)"
proof -
  note no = plain_set [OF plain]
  have star: "p \<noteq> ''*''" using no(4) by auto
  have sch: "getScheme p = Inr ([], p)"
    using no(1) by (simp add: getScheme_def getScheme_loop_no_colon)
  have force: "\<not> (p \<noteq> [] \<and> last p = CHR ''?'' \<and> count_list p (CHR ''?'') = 1)"
  proof
    assume a: "p \<noteq> [] \<and> last p = CHR ''?'' \<and> count_list p (CHR ''?'') = 1"
    then have "p \<noteq> []" and l: "last p = CHR ''?''" by blast+
    from this(1) have "last p \<in> set p" by (rule last_in_set)
    with l no(2) show False by simp
  qed
  have cut: "Cut p (CHR ''?'') = (p, [])" using no(2) by (rule Cut_notin)
  have seg: "CHR '':'' \<notin> set (fst (Cut p (CHR ''/'')))"
  proof
    assume "CHR '':'' \<in> set (fst (Cut p (CHR ''/'')))"
    then have "CHR '':'' \<in> set p" unfolding Cut_def fst_conv by (rule set_takeWhileD [THEN conjunct1])
    with no(1) show False by simp
  qed
  have un: "unescape p = Inr p" using no(3) by (rule unescape_no_percent)
  have esc: "escape p encodePath = p" using plain by (rule plain_escape)
  have ctl: "\<not> stringContainsCTLByte p" using plain by (rule plain_no_CTL)
  show ?thesis
    unfolding parse_def
    by (simp only: ctl star sch force cut seg un esc auth Let_def if_False if_True
        sum.case prod.case fst_conv snd_conv simp_thms)
qed

lemma parse_plain_query:
  assumes plain: "\<forall>c \<in> set p. is_alnum c \<or> c \<in> set ''-_.~/''"
    and auth: "\<not> HasPrefix p ''//''"
    and q: "q \<noteq> []" "\<not> stringContainsCTLByte q"
  shows "parse (p @ CHR ''?'' # q) =
           Some (Inr \<lparr>Path = p, RawPath = [], ForceQuery = False, RawQuery = q,
             Fragment = [], RawFragment = []\<rparr>)"
proof -
  define s where "s = p @ CHR ''?'' # q"
  note no = plain_set [OF plain]
  have ctl: "\<not> stringContainsCTLByte s"
    using plain_no_CTL [OF plain] q(2) stringContainsCTLByte_append [of p "CHR ''?'' # q"]
      stringContainsCTLByte_append [of "''?''" q] stringContainsCTLByte_query
    by (simp add: s_def)
  have star: "s \<noteq> ''*''" using q(1) by (cases p) (auto simp: s_def)
  have sch: "getScheme s = Inr ([], s)"
    using no(1) by (simp add: getScheme_def getScheme_loop_query s_def)
  have force: "\<not> (s \<noteq> [] \<and> last s = CHR ''?'' \<and> count_list s (CHR ''?'') = 1)"
    using not_force [OF no(2) q(1)] unfolding s_def by blast
  have cut: "Cut s (CHR ''?'') = (p, q)" unfolding s_def using no(2) by (rule Cut_append)
  have seg: "CHR '':'' \<notin> set (fst (Cut p (CHR ''/'')))"
  proof
    assume "CHR '':'' \<in> set (fst (Cut p (CHR ''/'')))"
    then have "CHR '':'' \<in> set p" unfolding Cut_def fst_conv by (rule set_takeWhileD [THEN conjunct1])
    with no(1) show False by simp
  qed
  have un: "unescape p = Inr p" using no(3) by (rule unescape_no_percent)
  have esc: "escape p encodePath = p" using plain by (rule plain_escape)
  have "parse s =
           Some (Inr \<lparr>Path = p, RawPath = [], ForceQuery = False, RawQuery = q,
             Fragment = [], RawFragment = []\<rparr>)"
    unfolding parse_def
    by (simp only: ctl star sch force cut seg un esc auth Let_def if_False if_True
        sum.case prod.case fst_conv snd_conv simp_thms)
  then show ?thesis by (simp only: s_def)
qed

lemma url_Parse_plain:
  assumes plain: "\<forall>c \<in> set p. is_alnum c \<or> c \<in> set ''-_.~/''"
    and auth: "\<not> HasPrefix p ''//''"
  shows "url_Parse p = Some (Inr \<lparr>Path = p, RawPath = [], ForceQuery = False, RawQuery = [],
            Fragment = [], RawFragment = []\<rparr>)"
proof -
  have "Cut p (CHR ''#'') = (p, [])" using plain_set(5) [OF plain] by (rule Cut_notin)
  then show ?thesis
    by (simp add: url_Parse_def parse_plain [OF plain auth])
qed

lemma url_Parse_plain_query:
  assumes plain: "\<forall>c \<in> set p. is_alnum c \<or> c \<in> set ''-_.~/''"
    and auth: "\<not> HasPrefix p ''//''"
    and q: "q \<noteq> []" "\<not> stringContainsCTLByte q" "CHR ''#'' \<notin> set q"
  shows "url_Parse (p @ CHR ''?'' # q) =
           Some (Inr \<lparr>Path = p, RawPath = [], ForceQuery = False, RawQuery = q,
             Fragment = [], RawFragment = []\<rparr>)"
proof -
  have "CHR ''#'' \<notin> set (p @ CHR ''?'' # q)" using plain_set(5) [OF plain] q(3) by simp
  then have "Cut (p @ CHR ''?'' # q) (CHR ''#'') = (p @ CHR ''?'' # q, [])" by (rule Cut_notin)
  then show ?thesis
    by (simp add: url_Parse_def parse_plain_query [OF plain auth q(1,2)])
qed

lemma url_String_plain:
  assumes plain: "\<forall>c \<in> set p. is_alnum c \<or> c \<in> set ''-_.~/''"
  shows "url_String \<lparr>Path = p, RawPath = [], ForceQuery = False, RawQuery = q,
            Fragment = [], RawFragment = []\<rparr> = p @ (if q = [] then [] else CHR ''?'' # q)"
proof -
  note no = plain_set [OF plain]
  have star: "p \<noteq> ''*''" using no(4) by auto
  have esc: "escape p encodePath = p" using plain by (rule plain_escape)
  have seg: "CHR '':'' \<notin> set (fst (Cut p (CHR ''/'')))"
  proof
    assume "CHR '':'' \<in> set (fst (Cut p (CHR ''/'')))"
    then have "CHR '':'' \<in> set p" unfolding Cut_def fst_conv by (rule set_takeWhileD [THEN conjunct1])
    with no(1) show False by simp
  qed
  show ?thesis
    using star esc seg by (simp add: url_String_def EscapedPath_def Let_def)
qed

lemma upperhex_nth_no_mark:
  assumes "k < 16"
  shows "upperhex ! k \<noteq> CHR ''?'' \<and> upperhex ! k \<noteq> CHR ''#''"
proof -
  have "upperhex ! k \<in> set upperhex"
    using assms by (intro nth_mem) (simp add: upperhex_def)
  then show ?thesis by (auto simp: upperhex_def)
qed

lemma escape_byte_path_no_mark:
  "CHR ''?'' \<notin> set (escape_byte c encodePath) \<and> CHR ''#'' \<notin> set (escape_byte c encodePath)"
proof (cases "shouldEscape c encodePath")
  case True
  then show ?thesis
    using upperhex_nth_no_mark [OF of_char_div_16 [of c]]
      upperhex_nth_no_mark [of "of_char c mod 16"]
    by (auto simp: escape_byte_def)
next
  case False
  then have "c \<noteq> CHR ''?''" "c \<noteq> CHR ''#''"
    by (auto simp: shouldEscape_def is_alnum_def)
  with False show ?thesis by (simp add: escape_byte_def)
qed

lemma escape_path_no_mark:
  "CHR ''?'' \<notin> set (escape s encodePath) \<and> CHR ''#'' \<notin> set (escape s encodePath)"
  using escape_byte_path_no_mark by (auto simp: escape_def)

lemma escape_byte_query_no_hash: "CHR ''#'' \<notin> set (escape_byte c encodeQueryComponent)"
proof (cases "shouldEscape c encodeQueryComponent")
  case True
  then show ?thesis
    using upperhex_nth_no_mark [OF of_char_div_16 [of c]]
      upperhex_nth_no_mark [of "of_char c mod 16"]
    by (auto simp: escape_byte_def)
next
  case False
  then have "c \<noteq> CHR ''#''"
    by (auto simp: shouldEscape_def is_alnum_def)
  with False show ?thesis by (simp add: escape_byte_def)
qed

lemma QueryEscape_no_hash: "CHR ''#'' \<notin> set (QueryEscape s)"
  using escape_byte_query_no_hash by (auto simp: QueryEscape_def escape_def)

lemma set_Join: "set (Join xs sep) \<subseteq> (\<Union>x \<in> set xs. set x) \<union> set sep"
  by (induction xs sep rule: Join.induct) auto

lemma Values_Encode_no_hash: "CHR ''#'' \<notin> set (Values_Encode v)"
proof
  assume "CHR ''#'' \<in> set (Values_Encode v)"
  then have "CHR ''#'' \<in> (\<Union>x \<in> set (concat (map (\<lambda>(k, vs). map (\<lambda>x. QueryEscape k @ ''='' @ QueryEscape x) vs)
                       (sort_keys v))). set x) \<union> set ''&''"
    unfolding Values_Encode_def using set_Join by blast
  then show False using QueryEscape_no_hash by auto
qed

lemma validEncoded_path_no_mark:
  assumes "validEncoded s encodePath"
  shows "CHR ''?'' \<notin> set s \<and> CHR ''#'' \<notin> set s"
proof -
  have "c \<noteq> CHR ''?'' \<and> c \<noteq> CHR ''#''" if "c \<in> set s" for c
  proof -
    from assms that have "c \<in> set ''!$&'' \<or> c = CHR 0x27 \<or> c \<in> set ''()*+,;=:@[]%''
                  \<or> \<not> shouldEscape c encodePath"
      by (simp add: validEncoded_def list_all_iff)
    then show ?thesis by (auto simp: shouldEscape_def is_alnum_def)
  qed
  then show ?thesis by blast
qed

lemma EscapedPath_no_mark:
  "CHR ''?'' \<notin> set (EscapedPath u) \<and> CHR ''#'' \<notin> set (EscapedPath u)"
  using validEncoded_path_no_mark [of "RawPath u"] escape_path_no_mark [of "Path u"]
  by (simp add: EscapedPath_def)

lemma takeWhile_past:
  "sep \<notin> set a \<Longrightarrow> takeWhile (\<lambda>c. c \<noteq> sep) (a @ r) = a @ takeWhile (\<lambda>c. c \<noteq> sep) r"
  by (induction a) auto

lemma path_of_target:
  assumes "CHR ''?'' \<notin> set pre" "CHR ''#'' \<notin> set pre"
    and "r = [] \<or> hd r = CHR ''?'' \<or> hd r = CHR ''#''"
  shows "fst (Cut (fst (Cut (pre @ r) (CHR ''#''))) (CHR ''?'')) = pre"
proof -
  have "takeWhile (\<lambda>c. c \<noteq> CHR ''?'') (takeWhile (\<lambda>c. c \<noteq> CHR ''#'') r) = []"
    using assms(3) by (cases r) auto
  then show ?thesis
    using assms(1,2) by (simp add: Cut_def takeWhile_past)
qed

lemma query_of_target:
  assumes "CHR ''?'' \<notin> set pre" "CHR ''#'' \<notin> set pre" "CHR ''#'' \<notin> set enc"
    and "f = [] \<or> hd f = CHR ''#''"
    and "qp = [] \<and> enc = [] \<or> qp = CHR ''?'' # enc"
  shows "snd (Cut (fst (Cut (pre @ qp @ f) (CHR ''#''))) (CHR ''?'')) = enc"
proof -
  have f: "takeWhile (\<lambda>c. c \<noteq> CHR ''#'') f = []" using assms(4) by (cases f) auto
  have qp: "CHR ''#'' \<notin> set qp" using assms(3,5) by auto
  have 1: "fst (Cut (pre @ qp @ f) (CHR ''#'')) = pre @ qp"
    using assms(2) qp f by (simp add: Cut_def takeWhile_past)
  have "snd (Cut (pre @ qp) (CHR ''?'')) = enc"
    using assms(5)
  proof
    assume "qp = [] \<and> enc = []"
    then show ?thesis using Cut_notin [OF assms(1)] by simp
  next
    assume "qp = CHR ''?'' # enc"
    then show ?thesis using Cut_append [OF assms(1), of enc] by simp
  qed
  with 1 show ?thesis by simp
qed

lemma url_String_parts:
  "url_String u = ((if CHR '':'' \<in> set (fst (Cut (EscapedPath u) (CHR ''/''))) then ''./'' else []) @ EscapedPath u)
     @ (if ForceQuery u \<or> RawQuery u \<noteq> [] then CHR ''?'' # RawQuery u else [])
     @ (if Fragment u \<noteq> [] then CHR ''#'' # EscapedFragment u else [])"
  by (simp add: url_String_def Let_def)

lemma EscapedPath_RawQuery: "EscapedPath (u\<lparr>RawQuery := q\<rparr>) = EscapedPath u"
  by (simp add: EscapedPath_def)

lemma EscapedFragment_RawQuery: "EscapedFragment (u\<lparr>RawQuery := q\<rparr>) = EscapedFragment u"
  by (simp add: EscapedFragment_def)

lemma path_text_no_mark:
  "CHR ''?'' \<notin> set ((if CHR '':'' \<in> set (fst (Cut (EscapedPath u) (CHR ''/''))) then ''./'' else []) @ EscapedPath u) \<and>
   CHR ''#'' \<notin> set ((if CHR '':'' \<in> set (fst (Cut (EscapedPath u) (CHR ''/''))) then ''./'' else []) @ EscapedPath u)"
  using EscapedPath_no_mark [of u] by simp

lemma url_String_path:
  "fst (Cut (fst (Cut (url_String u) (CHR ''#''))) (CHR ''?'')) = ((if CHR '':'' \<in> set (fst (Cut (EscapedPath u) (CHR ''/''))) then ''./'' else []) @ EscapedPath u)"
  unfolding url_String_parts
  using path_text_no_mark [of u]
  by (intro path_of_target) auto

lemma url_String_path_RawQuery:
  "fst (Cut (fst (Cut (url_String (u\<lparr>RawQuery := q\<rparr>)) (CHR ''#''))) (CHR ''?'')) =
   fst (Cut (fst (Cut (url_String u) (CHR ''#''))) (CHR ''?''))"
  by (simp only: url_String_path EscapedPath_RawQuery)

lemma url_String_query:
  "snd (Cut (fst (Cut (url_String (u\<lparr>RawQuery := Values_Encode v\<rparr>)) (CHR ''#''))) (CHR ''?''))
     = Values_Encode v"
proof -
  have "snd (Cut (fst (Cut (((if CHR '':'' \<in> set (fst (Cut (EscapedPath u) (CHR ''/''))) then ''./'' else []) @ EscapedPath u)
     @ (if ForceQuery u \<or> Values_Encode v \<noteq> [] then CHR ''?'' # Values_Encode v else [])
     @ (if Fragment u \<noteq> [] then CHR ''#'' # EscapedFragment u else [])) (CHR ''#''))) (CHR ''?''))
     = Values_Encode v"
    using path_text_no_mark [of u] Values_Encode_no_hash [of v]
    by (intro query_of_target) auto
  moreover have "url_String (u\<lparr>RawQuery := Values_Encode v\<rparr>) = ((if CHR '':'' \<in> set (fst (Cut (EscapedPath u) (CHR ''/''))) then ''./'' else []) @ EscapedPath u)
     @ (if ForceQuery u \<or> Values_Encode v \<noteq> [] then CHR ''?'' # Values_Encode v else [])
     @ (if Fragment u \<noteq> [] then CHR ''#'' # EscapedFragment u else [])"
    unfolding url_String_parts [of "u\<lparr>RawQuery := Values_Encode v\<rparr>"]
      EscapedPath_RawQuery EscapedFragment_RawQuery
    by simp
  ultimately show ?thesis by (simp only:)
qed

lemma query_Values_total: "\<exists>qs. query_Values opts = Inr qs"
  by (cases opts) (simp_all add: query_Values_def)

lemma addOptions_parsed:
  assumes "opts \<noteq> NilPointer" "url_Parse s = Some (Inr u)" "query_Values opts = Inr qs"
  shows "addOptions s opts = Some (Inr (url_String (u\<lparr>RawQuery := Values_Encode qs\<rparr>)))"
  using assms by (simp add: addOptions_def)

lemma addOptions_plain:
  assumes plain: "\<forall>c \<in> set p. is_alnum c \<or> c \<in> set ''-_.~/''"
    and auth: "\<not> HasPrefix p ''//''"
    and opts: "opts \<noteq> NilPointer" "query_Values opts = Inr qs"
  shows "addOptions p opts =
    Some (Inr (p @ (if Values_Encode qs = [] then [] else CHR ''?'' # Values_Encode qs)))"
  using addOptions_parsed [OF opts(1) url_Parse_plain [OF plain auth] opts(2)]
    url_String_plain [OF plain, of "Values_Encode qs"]
  by simp

lemma addOptions_plain_query:
  assumes plain: "\<forall>c \<in> set p. is_alnum c \<or> c \<in> set ''-_.~/''"
    and auth: "\<not> HasPrefix p ''//''"
    and opts: "opts \<noteq> NilPointer" "query_Values opts = Inr qs"
    and q: "q \<noteq> []" "\<not> stringContainsCTLByte q" "CHR ''#'' \<notin> set q"
  shows "addOptions (p @ CHR ''?'' # q) opts =
    Some (Inr (p @ (if Values_Encode qs = [] then [] else CHR ''?'' # Values_Encode qs)))"
  using addOptions_parsed [OF opts(1) url_Parse_plain_query [OF plain auth q] opts(2)]
    url_String_plain [OF plain, of "Values_Encode qs"]
  by simp



end
